theory Spec2Isabelle
  imports Complex_Main
begin

section \<open>The daily budget gate of \<open>SunoAPIClient\<close> (src/src/suno_api_client.py)\<close>

text \<open>
  The client keeps a usage counter \<open>daily_usage\<close> (a dictionary with the keys
  \<open>generations\<close>, \<open>cost_estimate\<close> and \<open>last_reset\<close>), a fixed cost estimate per
  generation and the configured daily budget. Money amounts are Python floats in the
  source; here they are exact rationals, so \<open>+\<close>, \<open>-\<close>, \<open>/\<close> and \<open><\<close> are the exact
  operations and no rounding takes place. The calendar date \<open>datetime.now().date()\<close>
  is an input of every function that reads the clock, given as a day number.
\<close>

record usage_counter =
  generations :: int
  cost_estimate :: rat
  last_reset :: nat

record suno_client =
  current_model :: string
  daily_usage :: usage_counter
  cost_per_generation :: rat
  daily_budget :: rat

text \<open>
  The part of \<open>__init__\<close> that sets up the budget gate: the counter starts at zero on
  the day of construction, the cost of one generation is the constant 0.01 and the budget
  is the value of \<open>DAILY_BUDGET_USD\<close>. The model is \<open>self.models['balanced']\<close>.
\<close>

definition init_client :: "rat \<Rightarrow> nat \<Rightarrow> suno_client" where
  "init_client budget today =
     \<lparr> current_model = ''v3_5'',
       daily_usage = \<lparr> generations = 0, cost_estimate = 0, last_reset = today \<rparr>,
       cost_per_generation = 1 / 100,
       daily_budget = budget \<rparr>"

definition reset_daily_usage_if_needed :: "nat \<Rightarrow> suno_client \<Rightarrow> suno_client" where
  "reset_daily_usage_if_needed today c =
     (if last_reset (daily_usage c) \<noteq> today
      then c\<lparr> daily_usage := \<lparr> generations = 0, cost_estimate = 0, last_reset = today \<rparr> \<rparr>
      else c)"

text \<open>\<open>_check_budget\<close> returns its verdict together with the client it may have reset.\<close>

definition check_budget :: "nat \<Rightarrow> suno_client \<Rightarrow> bool \<times> suno_client" where
  "check_budget today c =
     (let c' = reset_daily_usage_if_needed today c
      in (cost_estimate (daily_usage c') < daily_budget c', c'))"

definition track_usage :: "suno_client \<Rightarrow> suno_client" where
  "track_usage c =
     c\<lparr> daily_usage := (daily_usage c)
          \<lparr> generations := generations (daily_usage c) + 1,
            cost_estimate := cost_estimate (daily_usage c) + cost_per_generation c \<rparr> \<rparr>"


text \<open>
  \<open>get_usage_stats\<close> returns a dictionary, here a record. Python's \<open>int\<close> on a float
  truncates toward zero, and a float division by 0.0 raises \<open>ZeroDivisionError\<close>.
\<close>

datatype py_exception =
  IndexError | KeyError | TypeError | AttributeError | ValueError
  | ZeroDivisionError | TimeoutError | ClientError | OSError

definition py_int :: "rat \<Rightarrow> int" where
  "py_int x = (if 0 \<le> x then \<lfloor>x\<rfloor> else - \<lfloor>- x\<rfloor>)"

record usage_stats =
  stats_daily_generations :: int
  stats_daily_cost :: rat
  stats_budget_remaining :: rat
  stats_generations_remaining :: int
  stats_current_model :: string

definition get_usage_stats :: "nat \<Rightarrow> suno_client \<Rightarrow> py_exception + (usage_stats \<times> suno_client)" where
  "get_usage_stats today c =
     (let c' = reset_daily_usage_if_needed today c;
          budget_remaining = daily_budget c' - cost_estimate (daily_usage c')
      in if cost_per_generation c' = 0 then Inl ZeroDivisionError
         else
           (let generations_remaining = py_int (budget_remaining / cost_per_generation c')
            in Inr (\<lparr> stats_daily_generations = generations (daily_usage c'),
                       stats_daily_cost = cost_estimate (daily_usage c'),
                       stats_budget_remaining = budget_remaining,
                       stats_generations_remaining = max 0 generations_remaining,
                       stats_current_model = current_model c' \<rparr>, c')))"

section \<open>Python strings and JSON values\<close>

text \<open>
  Strings are lists of 8-bit characters and are read as ASCII text: only the ASCII
  letters have a case, and the white space of \<open>str.strip\<close> and \<open>str.split\<close> is the
  ASCII white space (tab, line feed, vertical tab, form feed, carriage return, the four
  separators 0x1C to 0x1F and the blank). Python knows more of both: U+0085 and U+00A0, for
  one, are white space to it. What is said below of \<open>strip\<close>, \<open>split\<close>, \<open>lower\<close>,
  \<open>upper\<close> and \<open>title\<close> is therefore said of ASCII text, the strings for which
  \<open>is_ascii\<close> holds.
\<close>

definition is_ascii :: "string \<Rightarrow> bool" where
  "is_ascii s \<longleftrightarrow> list_all (\<lambda>c. (of_char c :: nat) < 128) s"

definition is_space :: "char \<Rightarrow> bool" where
  "is_space c \<longleftrightarrow>
     c \<in> set [CHR 0x09, CHR 0x0A, CHR 0x0B, CHR 0x0C, CHR 0x0D,
               CHR 0x1C, CHR 0x1D, CHR 0x1E, CHR 0x1F, CHR '' '']"

definition ascii_uppercase :: string where
  "ascii_uppercase = ''ABCDEFGHIJKLMNOPQRSTUVWXYZ''"

definition ascii_lowercase :: string where
  "ascii_lowercase = ''abcdefghijklmnopqrstuvwxyz''"

definition lower_char :: "char \<Rightarrow> char" where
  "lower_char c = (case map_of (zip ascii_uppercase ascii_lowercase) c of Some d \<Rightarrow> d | None \<Rightarrow> c)"

definition upper_char :: "char \<Rightarrow> char" where
  "upper_char c = (case map_of (zip ascii_lowercase ascii_uppercase) c of Some d \<Rightarrow> d | None \<Rightarrow> c)"

definition is_alpha :: "char \<Rightarrow> bool" where
  "is_alpha c \<longleftrightarrow> c \<in> set (ascii_uppercase @ ascii_lowercase)"

definition py_lower :: "string \<Rightarrow> string" where
  "py_lower s = map lower_char s"

definition py_upper :: "string \<Rightarrow> string" where
  "py_upper s = map upper_char s"

definition py_strip :: "string \<Rightarrow> string" where
  "py_strip s = rev (dropWhile is_space (rev (dropWhile is_space s)))"

text \<open>
  \<open>str.split()\<close> without a separator: the maximal runs of characters that are not white
  space, in order; \<open>cur\<close> is the run being read.
\<close>

fun split_from :: "string \<Rightarrow> string \<Rightarrow> string list" where
  "split_from cur [] = (if cur = [] then [] else [cur])"
| "split_from cur (c # cs) =
     (if is_space c then (if cur = [] then split_from [] cs else cur # split_from [] cs)
      else split_from (cur @ [c]) cs)"

definition py_split :: "string \<Rightarrow> string list" where
  "py_split s = split_from [] s"

text \<open>\<open>sep.join(xs)\<close>.\<close>

fun py_join :: "string \<Rightarrow> string list \<Rightarrow> string" where
  "py_join sep [] = []"
| "py_join sep [x] = x"
| "py_join sep (x # y # ys) = x @ sep @ py_join sep (y # ys)"

text \<open>
  \<open>str.title()\<close>: a letter that follows a letter is lowered, any other letter is raised;
  \<open>prev\<close> tells whether the previous character was a letter.
\<close>

fun title_from :: "bool \<Rightarrow> string \<Rightarrow> string" where
  "title_from prev [] = []"
| "title_from prev (c # cs) =
     (if is_alpha c then (if prev then lower_char c else upper_char c) # title_from True cs
      else c # title_from False cs)"

definition py_title :: "string \<Rightarrow> string" where
  "py_title s = title_from False s"

text \<open>
  A decoded JSON document. An object is the list of its items, in order, with distinct
  keys. Numbers are integers.
\<close>

datatype json =
  JNull | JBool bool | JNum int | JStr string | JArr "json list" | JObj "(string \<times> json) list"

text \<open>Python's truth value of a decoded JSON document.\<close>

fun truthy :: "json \<Rightarrow> bool" where
  "truthy JNull = False"
| "truthy (JBool b) = b"
| "truthy (JNum n) = (n \<noteq> 0)"
| "truthy (JStr s) = (s \<noteq> [])"
| "truthy (JArr xs) = (xs \<noteq> [])"
| "truthy (JObj kvs) = (kvs \<noteq> [])"

text \<open>\<open>d.get(key, default)\<close> on a dictionary given by its items.\<close>

definition dict_get :: "(string \<times> json) list \<Rightarrow> string \<Rightarrow> json \<Rightarrow> json" where
  "dict_get kvs k d = (case map_of kvs k of Some v \<Rightarrow> v | None \<Rightarrow> d)"

text \<open>\<open>a or b\<close>.\<close>

definition py_or :: "json \<Rightarrow> json \<Rightarrow> json" where
  "py_or a b = (if truthy a then a else b)"

text \<open>\<open>xs[0]\<close> raises \<open>IndexError\<close> on the empty list.\<close>

definition first_item :: "'a list \<Rightarrow> py_exception + 'a" where
  "first_item xs = (case xs of [] \<Rightarrow> Inl IndexError | x # _ \<Rightarrow> Inr x)"

section \<open>The outside world of one call\<close>

text \<open>
  An HTTP response as the clients read it: the status, the decoded JSON body (\<open>None\<close>
  when decoding raises), the text, and the body as the chunks in which it arrives;
  \<open>stream_broken\<close> says that reading the body raises after the last of these chunks.
  A request either raises or yields a response. Files are a map from paths to contents.
\<close>

type_synonym bytes = "char list"

record http_response =
  status_code :: nat
  json_body :: "json option"
  text_body :: string
  chunks :: "bytes list"
  stream_broken :: bool

type_synonym files = "string \<rightharpoonup> bytes"

text \<open>
  What one call of \<open>generate_music\<close> meets: the clock (date, hour, the two formatted
  time stamps), the answer of the generation endpoint to a payload, the answer to the
  download of a URL, and whether creating the directory or opening the file raises.
\<close>

record suno_env =
  clock_date :: nat
  clock_hour :: nat
  clock_stamp :: string
  clock_iso :: string
  http_post :: "json \<Rightarrow> py_exception + http_response"
  http_get :: "string \<Rightarrow> py_exception + http_response"
  fs_raises :: bool

section \<open>Music generation (src/src/suno_api_client.py)\<close>

definition city_pop_templates :: "(string \<times> string list) list" where
  "city_pop_templates = [
     (''chill'',
       [''Relaxing city pop with smooth bass and dreamy synths, perfect for studying'',
        ''Mellow lo-fi city pop with gentle guitar and soft vocals, nostalgic vibes'',
        ''Chill city pop instrumental with warm piano and ambient textures'']),
     (''energetic'',
       [''Upbeat city pop with funky bass and bright synths, retro energy'',
        ''Energetic city pop with driving drums and catchy melodies, 80s inspired'',
        ''Vibrant city pop with electric guitar and danceable rhythm'']),
     (''romantic'',
       [''Romantic city pop with smooth saxophone and gentle vocals, sunset vibes'',
        ''Dreamy city pop ballad with soft synths and heartfelt melody'',
        ''Intimate city pop with warm vocals and tender instrumental'']),
     (''melancholic'',
       [''Melancholic city pop with minor chords and reflective mood, rainy night'',
        ''Bittersweet city pop with emotional vocals and wistful melody'',
        ''Nostalgic city pop with gentle melancholy and urban atmosphere'']),
     (''study'',
       [''Focus-friendly city pop instrumental, minimal vocals, concentration vibes'',
        ''Study session city pop with repetitive, non-distracting melody'',
        ''Ambient city pop perfect for background work, gentle and flowing'']) ]"

text \<open>\<open>table[key]\<close> raises \<open>KeyError\<close> on a missing key.\<close>

definition table_index :: "(string \<times> 'v) list \<Rightarrow> string \<Rightarrow> py_exception + 'v" where
  "table_index tab k = (case map_of tab k of None \<Rightarrow> Inl KeyError | Some v \<Rightarrow> Inr v)"

definition first_of :: "(string \<times> string list) list \<Rightarrow> string \<Rightarrow> py_exception + string" where
  "first_of tab k = (case table_index tab k of Inl e \<Rightarrow> Inl e | Inr xs \<Rightarrow> first_item xs)"

text \<open>\<open>_enhance_city_pop_prompt\<close>; the hour of the clock is its third input.\<close>

definition enhance_city_pop_prompt :: "nat \<Rightarrow> string \<Rightarrow> string \<Rightarrow> py_exception + string" where
  "enhance_city_pop_prompt hour base_prompt mood =
     (case (if mood \<in> fst ` set city_pop_templates
            then first_of city_pop_templates mood
            else first_of city_pop_templates ''chill'') of
        Inl e \<Rightarrow> Inl e
      | Inr mood_template \<Rightarrow>
          (let enhanced = (if py_strip base_prompt \<noteq> []
                           then mood_template @ '', '' @ base_prompt
                           else mood_template);
               enhanced = enhanced @ '', city pop genre, retro aesthetic, high quality production''
           in Inr (if 22 \<le> hour \<or> hour < 6
                   then enhanced @ '', late night vibes, intimate atmosphere''
                   else if 6 \<le> hour \<and> hour < 12
                   then enhanced @ '', morning energy, fresh start feeling''
                   else if 12 \<le> hour \<and> hour < 18
                   then enhanced @ '', afternoon warmth, steady rhythm''
                   else enhanced @ '', evening glow, winding down'')))"

text \<open>
  \<open>_download_audio\<close>. A URL that is not a string makes the request raise. Every
  exception is caught and turned into \<open>None\<close>; a body that breaks off leaves the part
  already written in the file.
\<close>

definition download_audio :: "suno_env \<Rightarrow> files \<Rightarrow> json \<Rightarrow> string option \<times> files" where
  "download_audio env fs audio_url =
     (let filename = ''cityPop_'' @ clock_stamp env @ ''.mp3'';
          filepath = ''music/'' @ filename
      in if fs_raises env then (None, fs)
         else
           (case (case audio_url of JStr u \<Rightarrow> http_get env u | _ \<Rightarrow> Inl TypeError) of
              Inl e \<Rightarrow> (None, fs)
            | Inr response \<Rightarrow>
                if status_code response = 200
                then (if stream_broken response
                      then (None, fs(filepath \<mapsto> concat (chunks response)))
                      else (Some filepath, fs(filepath \<mapsto> concat (chunks response))))
                else (None, fs)))"

text \<open>The dictionary that \<open>_process_generation_result\<close> returns.\<close>

record track =
  track_filename :: string
  track_title :: json
  track_prompt :: string
  track_mood :: string
  track_duration :: json
  track_model_version :: string
  track_created_at :: string
  track_suno_id :: json
  track_metadata :: "(string \<times> json) list"
  track_genre :: string
  track_tags :: json
  track_lyrics :: json

text \<open>
  \<open>_process_generation_result\<close>. A result that is not a dictionary has no \<open>get\<close>; the
  \<open>AttributeError\<close> is caught like every other exception and the answer is \<open>None\<close>.
\<close>

definition process_generation_result ::
  "suno_env \<Rightarrow> files \<Rightarrow> suno_client \<Rightarrow> json \<Rightarrow> string \<Rightarrow> string \<Rightarrow>
   (string \<times> json) list option \<Rightarrow> track option \<times> files" where
  "process_generation_result env fs c result enhanced mood metadata =
     (case result of
        JObj kvs \<Rightarrow>
          (let audio_url = py_or (dict_get kvs ''audio_url'' JNull)
                             (py_or (dict_get kvs ''audio'' JNull) (dict_get kvs ''url'' JNull))
           in if \<not> truthy audio_url then (None, fs)
              else
                (case download_audio env fs audio_url of
                   (Some audio_filename, fs') \<Rightarrow>
                     (Some \<lparr> track_filename = audio_filename,
                             track_title = dict_get kvs ''title''
                                             (JStr (''City Pop '' @ py_title mood @ '' Track'')),
                             track_prompt = enhanced,
                             track_mood = mood,
                             track_duration = dict_get kvs ''duration'' (JNum 180),
                             track_model_version = current_model c,
                             track_created_at = clock_iso env,
                             track_suno_id = dict_get kvs ''id'' JNull,
                             track_metadata = (case metadata of Some m \<Rightarrow> m | None \<Rightarrow> []),
                             track_genre = ''city_pop_anime'',
                             track_tags = dict_get kvs ''tags'' (JArr []),
                             track_lyrics = dict_get kvs ''lyric'' (JStr []) \<rparr>, fs')
                 | (None, fs') \<Rightarrow> (None, fs')))
      | _ \<Rightarrow> (None, fs))"

text \<open>The request body that \<open>generate_music\<close> sends.\<close>

definition payload_of :: "suno_client \<Rightarrow> string \<Rightarrow> (string \<times> json) list option \<Rightarrow> json" where
  "payload_of c enhanced metadata =
     JObj ([(''prompt'', JStr enhanced),
            (''model_version'', JStr (current_model c)),
            (''make_instrumental'', JBool False),
            (''wait_audio'', JBool True)]
           @ (case metadata of
                None \<Rightarrow> []
              | Some m \<Rightarrow>
                  (case map_of m ''duration'' of Some v \<Rightarrow> [(''duration'', v)] | None \<Rightarrow> [])
                  @ (case map_of m ''style'' of Some v \<Rightarrow> [(''style'', v)] | None \<Rightarrow> [])))"

text \<open>
  \<open>generate_music\<close>: the budget check, then the request; usage is tracked as soon as the
  endpoint has answered 200 with a body that decodes, and only then is the result
  processed. The call returns the track or \<open>None\<close>, the client and the files.
\<close>

definition generate_music ::
  "suno_env \<Rightarrow> suno_client \<Rightarrow> files \<Rightarrow> string \<Rightarrow> string \<Rightarrow> (string \<times> json) list option \<Rightarrow>
   track option \<times> suno_client \<times> files" where
  "generate_music env c fs prompt_text mood metadata =
     (case check_budget (clock_date env) c of
        (False, c1) \<Rightarrow> (None, c1, fs)
      | (True, c1) \<Rightarrow>
          (case enhance_city_pop_prompt (clock_hour env) prompt_text mood of
             Inl e \<Rightarrow> (None, c1, fs)
           | Inr enhanced_prompt \<Rightarrow>
               (case http_post env (payload_of c1 enhanced_prompt metadata) of
                  Inl e \<Rightarrow> (None, c1, fs)
                | Inr response \<Rightarrow>
                    if status_code response = 200
                    then (case json_body response of
                            None \<Rightarrow> (None, c1, fs)
                          | Some result \<Rightarrow>
                              (let c2 = track_usage c1;
                                   (r, fs') = process_generation_result env fs c2 result
                                                enhanced_prompt mood metadata
                               in (r, c2, fs')))
                    else (None, c1, fs))))"

text \<open>
  A run of generation attempts, one after the other, each finished before the next
  starts, as \<open>generate_batch\<close> and the generation loop of the application make them.
\<close>

record attempt =
  attempt_env :: suno_env
  attempt_prompt :: string
  attempt_mood :: string
  attempt_metadata :: "(string \<times> json) list option"

fun run_attempts :: "suno_client \<Rightarrow> files \<Rightarrow> attempt list \<Rightarrow> suno_client \<times> files" where
  "run_attempts c fs [] = (c, fs)"
| "run_attempts c fs (a # as) =
     (case generate_music (attempt_env a) c fs (attempt_prompt a) (attempt_mood a)
             (attempt_metadata a) of
        (r, c', fs') \<Rightarrow> run_attempts c' fs' as)"

text \<open>
  Overlapping calls. \<open>generate_music\<close> is a coroutine: it calls \<open>_check_budget\<close>, is
  suspended while the request is under way, and calls \<open>_track_usage\<close> once the answer has
  come; nothing keeps other calls from running in between. A trace lists what the calls do
  to the counter, in the order in which it happens: \<open>Check i today\<close> is call \<open>i\<close> checking
  the budget, \<open>Track i\<close> is call \<open>i\<close> tracking its usage, \<open>Return i\<close> is call \<open>i\<close>
  returning without having tracked anything. \<open>pending\<close> holds the calls whose check has
  passed and that have neither tracked nor returned: only these track.
\<close>

datatype budget_event = Check nat nat | Track nat | Return nat

fun run_events :: "suno_client \<Rightarrow> nat list \<Rightarrow> budget_event list \<Rightarrow> suno_client \<times> nat list" where
  "run_events c pending [] = (c, pending)"
| "run_events c pending (Check i today # events) =
     (case check_budget today c of
        (True, c1) \<Rightarrow> run_events c1 (i # pending) events
      | (False, c1) \<Rightarrow> run_events c1 pending events)"
| "run_events c pending (Track i # events) =
     (if i \<in> set pending then run_events (track_usage c) (remove1 i pending) events
      else run_events c pending events)"
| "run_events c pending (Return i # events) = run_events c (remove1 i pending) events"

text \<open>
  The traces of calls that do not overlap: each call, given by its number, the date of its
  check and whether its request is answered with a result, does all it does before the
  next call starts.
\<close>

fun serial_events :: "(nat \<times> nat \<times> bool) list \<Rightarrow> budget_event list" where
  "serial_events [] = []"
| "serial_events ((i, today, answered) # calls) =
     (if answered then [Check i today, Track i] else [Check i today, Return i])
     @ serial_events calls"

section \<open>Chat commands (src/src/main.py)\<close>

text \<open>
  \<open>_process_chat_message\<close> hands its work to the prompt generator and the queue manager,
  whose modules are not part of the sources at hand. They are parameters here: the two
  prompt constructors, and the two queue operations as functions on the state \<open>'q\<close> of the
  queue manager. A chat message is a dictionary from strings to strings.
\<close>

record ('p, 'q) collaborators =
  create_from_user_input :: "string \<Rightarrow> string \<Rightarrow> 'p"
  create_mood_prompt :: "string \<Rightarrow> string \<Rightarrow> 'p"
  add_user_request :: "'p \<Rightarrow> string \<Rightarrow> 'q \<Rightarrow> 'q"
  process_vote :: "string \<Rightarrow> string \<Rightarrow> 'q \<Rightarrow> 'q"

definition message_get :: "(string \<rightharpoonup> string) \<Rightarrow> string \<Rightarrow> string \<Rightarrow> string" where
  "message_get message k d = (case message k of Some v \<Rightarrow> v | None \<Rightarrow> d)"

text \<open>
  The function has no handler of its own: \<open>command[0]\<close> on an empty list raises
  \<open>IndexError\<close> out of it. \<open>text[1:]\<close> is \<open>tl\<close>, \<open>command[1:]\<close> as well.
\<close>

definition process_chat_message ::
  "('p, 'q) collaborators \<Rightarrow> 'q \<Rightarrow> (string \<rightharpoonup> string) \<Rightarrow> py_exception + 'q" where
  "process_chat_message co q message =
     (let text = py_strip (message_get message ''text'' []);
          author = message_get message ''author'' ''Unknown''
      in if take 1 text = ''!''
         then
           (let command = py_split (py_lower (tl text))
            in case first_item command of
                 Inl e \<Rightarrow> Inl e
               | Inr verb \<Rightarrow>
                   if verb = ''generate'' \<and> length command > 1
                   then (let prompt_text = py_join '' '' (tl command);
                             prompt = create_from_user_input co prompt_text author
                         in Inr (add_user_request co prompt author q))
                   else if verb = ''mood'' \<and> length command > 1
                   then (let mood = py_join '' '' (tl command);
                             prompt = create_mood_prompt co mood author
                         in Inr (add_user_request co prompt author q))
                   else if verb = ''vote'' \<and> length command > 1
                   then (case first_item (tl command) of
                           Inl e \<Rightarrow> Inl e
                         | Inr token \<Rightarrow> Inr (process_vote co (py_upper token) author q))
                   else Inr q)
         else Inr q)"

text \<open>
  Collaborators that only record what they are asked to do: the queue state is the list
  of calls received, oldest first.
\<close>

datatype prompt_call = From_user_input string string | Mood_prompt string string

datatype queue_call = Add_user_request prompt_call string | Process_vote string string

definition recording :: "(prompt_call, queue_call list) collaborators" where
  "recording =
     \<lparr> create_from_user_input = From_user_input,
       create_mood_prompt = Mood_prompt,
       add_user_request = (\<lambda>p a q. q @ [Add_user_request p a]),
       process_vote = (\<lambda>v a q. q @ [Process_vote v a]) \<rparr>"

section \<open>The status loop (src/src/main.py)\<close>

text \<open>
  One round of \<open>_status_monitoring_loop\<close> calls three methods of the queue manager and of
  the playback controller, whose modules are not part of the sources at hand. They are
  parameters here: each takes the state \<open>'w\<close> that the collaborators share and returns a
  value or an exception together with the state it leaves. The dictionary \<open>status\<close> is
  built inside one \<open>try\<close>, its entries in the order written, so the first exception ends
  the round in the handler and the later methods are not called. A round writes one log
  line, sleeps, and hands on the state.
\<close>

record 'w status_sources =
  get_queue_size :: "'w \<Rightarrow> (py_exception + json) \<times> 'w"
  get_pending_requests :: "'w \<Rightarrow> (py_exception + json) \<times> 'w"
  get_stream_status :: "'w \<Rightarrow> (py_exception + json) \<times> 'w"

datatype log_line = Status_line json json json | Error_line py_exception

definition status_round :: "'w status_sources \<Rightarrow> 'w \<Rightarrow> (log_line \<times> nat) \<times> 'w" where
  "status_round src w =
     (case get_queue_size src w of
        (Inl e, w1) \<Rightarrow> ((Error_line e, 60), w1)
      | (Inr queue_size, w1) \<Rightarrow>
          (case get_pending_requests src w1 of
             (Inl e, w2) \<Rightarrow> ((Error_line e, 60), w2)
           | (Inr generation_requests, w2) \<Rightarrow>
               (case get_stream_status src w2 of
                  (Inl e, w3) \<Rightarrow> ((Error_line e, 60), w3)
                | (Inr stream_status, w3) \<Rightarrow>
                    ((Status_line queue_size generation_requests stream_status, 60), w3))))"

text \<open>
  The loop over the rounds that are observed, each given by the value of \<open>self.running\<close>
  at its start; the result is the log and the state after the last round.
\<close>

fun status_monitoring_loop ::
  "'w status_sources \<Rightarrow> bool list \<Rightarrow> 'w \<Rightarrow> (log_line \<times> nat) list \<times> 'w" where
  "status_monitoring_loop src [] w = ([], w)"
| "status_monitoring_loop src (running # rounds) w =
     (if running
      then (case status_round src w of
              (line, w1) \<Rightarrow>
                (case status_monitoring_loop src rounds w1 of
                   (lines, w2) \<Rightarrow> (line # lines, w2)))
      else ([], w))"

section \<open>Waiting for a video job (src/src/background_generator.py)\<close>

text \<open>
  Time is a number of milliseconds. A poll of the backend takes \<open>poll_latency\<close> and then
  raises or yields a response; the backend is the sequence of its polls. Sleeping adds to
  the clock. The loop returns its result and the time at which it returns.
\<close>

record poll =
  poll_latency :: nat
  poll_reply :: "py_exception + http_response"

function wait_for_generation_loop ::
  "(nat \<Rightarrow> poll) \<Rightarrow> int \<Rightarrow> nat \<Rightarrow> nat \<Rightarrow> nat \<Rightarrow> json option \<times> nat" where
  "wait_for_generation_loop backend max_wait start_time now k =
     (if int now - int start_time < max_wait * 1000
      then
        (let now1 = now + poll_latency (backend k)
         in case poll_reply (backend k) of
              Inl e \<Rightarrow> wait_for_generation_loop backend max_wait start_time (now1 + 10000) (Suc k)
            | Inr response \<Rightarrow>
                if status_code response = 200
                then (case json_body response of
                        Some (JObj kvs) \<Rightarrow>
                          (let status = dict_get kvs ''status'' (JStr ''unknown'')
                           in if status = JStr ''completed'' then (Some (JObj kvs), now1)
                              else if status = JStr ''failed'' then (None, now1)
                              else wait_for_generation_loop backend max_wait start_time
                                     (now1 + 10000) (Suc k))
                      | _ \<Rightarrow> wait_for_generation_loop backend max_wait start_time
                               (now1 + 10000) (Suc k))
                else wait_for_generation_loop backend max_wait start_time (now1 + 10000) (Suc k))
      else (None, now))"
  by pat_completeness auto
termination
  by (relation "measure (\<lambda>(backend, max_wait, start_time, now, k).
                   nat (max_wait * 1000 - (int now - int start_time)))") auto

text \<open>\<open>_wait_for_generation\<close>: the clock is read once for \<open>start_time\<close>, then the loop runs.\<close>

definition wait_for_generation :: "(nat \<Rightarrow> poll) \<Rightarrow> int \<Rightarrow> nat \<Rightarrow> json option \<times> nat" where
  "wait_for_generation backend max_wait start_time =
     wait_for_generation_loop backend max_wait start_time start_time 0"

section \<open>Waiting for an image (src/src/thunder_image_client.py)\<close>

text \<open>
  The operations of Python on decoded JSON that the polling code uses, each with the
  exception it raises on a value of the wrong shape: iterating, \<open>x[1]\<close> and \<open>x[0]\<close>,
  \<open>key in x\<close> and \<open>x[key]\<close> for a string \<open>key\<close>.
\<close>

fun contains_str :: "string \<Rightarrow> string \<Rightarrow> bool" where
  "contains_str s [] = (s = [])"
| "contains_str s (c # cs) = (take (length s) (c # cs) = s \<or> contains_str s cs)"

definition py_iter :: "json \<Rightarrow> py_exception + json list" where
  "py_iter x =
     (case x of
        JArr xs \<Rightarrow> Inr xs
      | JObj kvs \<Rightarrow> Inr (map (\<lambda>kv. JStr (fst kv)) kvs)
      | JStr s \<Rightarrow> Inr (map (\<lambda>c. JStr [c]) s)
      | _ \<Rightarrow> Inl TypeError)"

definition py_item :: "json \<Rightarrow> nat \<Rightarrow> py_exception + json" where
  "py_item x i =
     (case x of
        JArr xs \<Rightarrow> (if i < length xs then Inr (xs ! i) else Inl IndexError)
      | JStr s \<Rightarrow> (if i < length s then Inr (JStr [s ! i]) else Inl IndexError)
      | JObj kvs \<Rightarrow> Inl KeyError
      | _ \<Rightarrow> Inl TypeError)"

definition py_in :: "string \<Rightarrow> json \<Rightarrow> py_exception + bool" where
  "py_in k x =
     (case x of
        JObj kvs \<Rightarrow> Inr (k \<in> fst ` set kvs)
      | JArr xs \<Rightarrow> Inr (JStr k \<in> set xs)
      | JStr s \<Rightarrow> Inr (contains_str k s)
      | _ \<Rightarrow> Inl TypeError)"

definition py_key :: "json \<Rightarrow> string \<Rightarrow> py_exception + json" where
  "py_key x k =
     (case x of
        JObj kvs \<Rightarrow> (case map_of kvs k of Some v \<Rightarrow> Inr v | None \<Rightarrow> Inl KeyError)
      | _ \<Rightarrow> Inl TypeError)"

text \<open>\<open>x.get(key, default)\<close>: only a dictionary has the method.\<close>

definition py_get :: "json \<Rightarrow> string \<Rightarrow> json \<Rightarrow> py_exception + json" where
  "py_get x k d = (case x of JObj kvs \<Rightarrow> Inr (dict_get kvs k d) | _ \<Rightarrow> Inl AttributeError)"

text \<open>\<open>any(item[1] == prompt_id for item in items)\<close>, which stops at the first match.\<close>

fun any_item_is :: "string \<Rightarrow> json list \<Rightarrow> py_exception + bool" where
  "any_item_is prompt_id [] = Inr False"
| "any_item_is prompt_id (item # items) =
     (case py_item item 1 of
        Inl e \<Rightarrow> Inl e
      | Inr v \<Rightarrow> if v = JStr prompt_id then Inr True else any_item_is prompt_id items)"

text \<open>
  One round of polling asks for the queue, perhaps for the history and perhaps for
  images; \<open>image_latency\<close> is the time all requests of the round take together, and the
  answer to an image request depends on the three parameters sent.
\<close>

record image_poll =
  image_latency :: nat
  queue_reply :: "py_exception + http_response"
  history_reply :: "py_exception + http_response"
  view_reply :: "json \<Rightarrow> json \<Rightarrow> json \<Rightarrow> py_exception + http_response"

text \<open>
  The loop \<open>for node_outputs in outputs.values()\<close>: the first image of the first node
  whose download answers 200 is returned; \<open>Inr None\<close> means that the loop ran to its end.
\<close>

fun find_saved_image :: "image_poll \<Rightarrow> json list \<Rightarrow> py_exception + bytes option" where
  "find_saved_image p [] = Inr None"
| "find_saved_image p (node_outputs # rest) =
     (case py_in ''images'' node_outputs of
        Inl e \<Rightarrow> Inl e
      | Inr False \<Rightarrow> find_saved_image p rest
      | Inr True \<Rightarrow>
          (case py_key node_outputs ''images'' of
             Inl e \<Rightarrow> Inl e
           | Inr images \<Rightarrow>
               if truthy images
               then
                 (case py_item images 0 of
                    Inl e \<Rightarrow> Inl e
                  | Inr image_info \<Rightarrow>
                      (case py_key image_info ''filename'' of
                         Inl e \<Rightarrow> Inl e
                       | Inr filename \<Rightarrow>
                           (case py_get image_info ''subfolder'' (JStr []) of
                              Inl e \<Rightarrow> Inl e
                            | Inr subfolder \<Rightarrow>
                                (case py_get image_info ''type'' (JStr ''output'') of
                                   Inl e \<Rightarrow> Inl e
                                 | Inr type \<Rightarrow>
                                     (case view_reply p filename subfolder type of
                                        Inl e \<Rightarrow> Inl e
                                      | Inr img_response \<Rightarrow>
                                          if status_code img_response = 200
                                          then (if stream_broken img_response then Inl ClientError
                                                else Inr (Some (concat (chunks img_response))))
                                          else find_saved_image p rest)))))
               else find_saved_image p rest))"

text \<open>
  The body of the \<open>try\<close> in \<open>_wait_for_completion\<close>, up to the sleep: \<open>Inr (Some data)\<close>
  is the \<open>return\<close>, \<open>Inr None\<close> the way down to \<open>asyncio.sleep(2)\<close>, \<open>Inl e\<close> the way into
  the handler.
\<close>

definition check_history :: "image_poll \<Rightarrow> string \<Rightarrow> py_exception + bytes option" where
  "check_history p prompt_id =
     (case history_reply p of
        Inl e \<Rightarrow> Inl e
      | Inr hist_response \<Rightarrow>
          if status_code hist_response = 200
          then
            (case json_body hist_response of
               None \<Rightarrow> Inl ValueError
             | Some history \<Rightarrow>
                 (case py_in prompt_id history of
                    Inl e \<Rightarrow> Inl e
                  | Inr False \<Rightarrow> Inr None
                  | Inr True \<Rightarrow>
                      (case py_key history prompt_id of
                         Inl e \<Rightarrow> Inl e
                       | Inr entry \<Rightarrow>
                           (case py_get entry ''outputs'' (JObj []) of
                              Inl e \<Rightarrow> Inl e
                            | Inr (JObj outputs) \<Rightarrow> find_saved_image p (map snd outputs)
                            | Inr _ \<Rightarrow> Inl AttributeError))))
          else Inr None)"

definition check_once :: "image_poll \<Rightarrow> string \<Rightarrow> py_exception + bytes option" where
  "check_once p prompt_id =
     (case queue_reply p of
        Inl e \<Rightarrow> Inl e
      | Inr response \<Rightarrow>
          if status_code response = 200
          then
            (case json_body response of
               None \<Rightarrow> Inl ValueError
             | Some queue_data \<Rightarrow>
                 (case py_get queue_data ''queue_remaining'' (JArr []) of
                    Inl e \<Rightarrow> Inl e
                  | Inr queue_remaining \<Rightarrow>
                      (case py_iter queue_remaining of
                         Inl e \<Rightarrow> Inl e
                       | Inr items \<Rightarrow>
                           (case any_item_is prompt_id items of
                              Inl e \<Rightarrow> Inl e
                            | Inr True \<Rightarrow> Inr None
                            | Inr False \<Rightarrow> check_history p prompt_id))))
          else Inr None)"

function wait_for_completion_loop ::
  "(nat \<Rightarrow> image_poll) \<Rightarrow> string \<Rightarrow> int \<Rightarrow> nat \<Rightarrow> nat \<Rightarrow> nat \<Rightarrow> bytes option \<times> nat" where
  "wait_for_completion_loop backend prompt_id max_wait start_time now k =
     (if int now - int start_time < max_wait * 1000
      then
        (let now1 = now + image_latency (backend k)
         in case check_once (backend k) prompt_id of
              Inr (Some data) \<Rightarrow> (Some data, now1)
            | Inr None \<Rightarrow>
                wait_for_completion_loop backend prompt_id max_wait start_time (now1 + 2000) (Suc k)
            | Inl e \<Rightarrow>
                wait_for_completion_loop backend prompt_id max_wait start_time (now1 + 5000) (Suc k))
      else (None, now))"
  by pat_completeness auto
termination
  by (relation "measure (\<lambda>(backend, prompt_id, max_wait, start_time, now, k).
                   nat (max_wait * 1000 - (int now - int start_time)))") auto

definition wait_for_completion ::
  "(nat \<Rightarrow> image_poll) \<Rightarrow> string \<Rightarrow> int \<Rightarrow> nat \<Rightarrow> bytes option \<times> nat" where
  "wait_for_completion backend prompt_id max_wait start_time =
     wait_for_completion_loop backend prompt_id max_wait start_time start_time 0"

section \<open>Background videos (src/src/background_generator.py)\<close>

definition mood_prompts :: "(string \<times> string list) list" where
  "mood_prompts = [
     (''chill'',
       [''flowing abstract waves in soft pastels, gentle movement'',
        ''minimalist geometric shapes floating peacefully'',
        ''soft cloud formations drifting slowly across gradient sky'']),
     (''energetic'',
       [''dynamic particle systems with vibrant colors'',
        ''fast-moving geometric patterns in bright neon'',
        ''pulsing light effects with rhythmic energy'']),
     (''ambient'',
       [''ethereal mist floating in space, very slow movement'',
        ''subtle color gradients slowly shifting and blending'',
        ''zen-like water ripples in monochrome'']),
     (''jazz'',
       [''smooth smoke swirls with warm golden tones'',
        ''vintage vinyl record spinning with abstract elements'',
        ''art deco patterns flowing with musical rhythm'']),
     (''electronic'',
       [''digital grid patterns with neon accents'',
        ''cyberpunk-inspired geometric animations'',
        ''holographic interfaces with futuristic elements'']),
     (''nature'',
       [''peaceful forest with gentle leaf movement'',
        ''calm ocean waves under sunset sky'',
        ''flowing river through misty mountains'']),
     (''study'',
       [''library atmosphere with floating books and papers'',
        ''desk setup with gentle lighting and coffee steam'',
        ''cozy room with soft lamp glow and plants'']),
     (''rain'',
       [''gentle raindrops on window with city lights'',
        ''peaceful rainfall in forest with soft lighting'',
        ''water droplets creating ripples on calm surface'']) ]"

definition time_themes :: "(string \<times> string) list" where
  "time_themes = [
     (''morning'', ''sunrise colors, warm golden light, fresh beginnings''),
     (''afternoon'', ''bright natural lighting, clear skies, vibrant energy''),
     (''evening'', ''sunset hues, warm orange and pink tones, winding down''),
     (''night'', ''dark blues and purples, starry effects, peaceful atmosphere''),
     (''late_night'', ''deep darkness with subtle neon, midnight vibes'') ]"

definition seasonal_themes :: "(string \<times> string) list" where
  "seasonal_themes = [
     (''spring'', ''fresh green colors, blooming flowers, renewal energy''),
     (''summer'', ''bright warm colors, sunny atmosphere, vacation vibes''),
     (''autumn'', ''orange and red leaves, cozy atmosphere, harvest colors''),
     (''winter'', ''cool blues and whites, snow effects, minimal warmth'') ]"

text \<open>
  The entries of \<open>video_settings\<close> that reach a prompt or a result: the duration, as the
  number and as the text an f-string makes of it, and the resolution.
\<close>

definition video_duration :: int where
  "video_duration = 30"

definition video_duration_text :: string where
  "video_duration_text = ''30''"

definition video_resolution :: string where
  "video_resolution = ''1920x1080''"

text \<open>\<open>enhanced += f", {table[key]}"\<close>.\<close>

definition add_theme :: "(string \<times> string) list \<Rightarrow> string \<Rightarrow> string \<Rightarrow> py_exception + string" where
  "add_theme tab k enhanced =
     (case table_index tab k of Inl e \<Rightarrow> Inl e | Inr theme \<Rightarrow> Inr (enhanced @ '', '' @ theme))"

text \<open>\<open>_enhance_prompt\<close>; the hour and the month of the clock are inputs.\<close>

definition enhance_prompt :: "nat \<Rightarrow> nat \<Rightarrow> string \<Rightarrow> string \<Rightarrow> py_exception + string" where
  "enhance_prompt current_hour month base_prompt mood =
     (case (if mood \<in> fst ` set mood_prompts
            then (case first_of mood_prompts mood of
                    Inl e \<Rightarrow> Inl e
                  | Inr mood_element \<Rightarrow> Inr (base_prompt @ '', '' @ mood_element))
            else Inr base_prompt) of
        Inl e \<Rightarrow> Inl e
      | Inr enhanced \<Rightarrow>
          (case (if 5 \<le> current_hour \<and> current_hour < 12 then add_theme time_themes ''morning'' enhanced
                 else if 12 \<le> current_hour \<and> current_hour < 17
                 then add_theme time_themes ''afternoon'' enhanced
                 else if 17 \<le> current_hour \<and> current_hour < 21
                 then add_theme time_themes ''evening'' enhanced
                 else if 21 \<le> current_hour \<and> current_hour < 24
                 then add_theme time_themes ''night'' enhanced
                 else add_theme time_themes ''late_night'' enhanced) of
             Inl e \<Rightarrow> Inl e
           | Inr enhanced \<Rightarrow>
               (case (if month \<in> set [3, 4, 5] then add_theme seasonal_themes ''spring'' enhanced
                      else if month \<in> set [6, 7, 8] then add_theme seasonal_themes ''summer'' enhanced
                      else if month \<in> set [9, 10, 11]
                      then add_theme seasonal_themes ''autumn'' enhanced
                      else add_theme seasonal_themes ''winter'' enhanced) of
                  Inl e \<Rightarrow> Inl e
                | Inr enhanced \<Rightarrow>
                    Inr (enhanced @ '', seamless loop animation, '' @ video_duration_text
                         @ '' seconds, smooth transitions, abstract style suitable for background, ''
                         @ ''no text or logos, continuous motion, '' @ video_resolution
                         @ '' resolution''))))"

text \<open>
  What one call of \<open>generate_background\<close> meets: the clock, the answer of the video
  endpoint to a prompt, the polls of the job and the time at which waiting starts, the
  answer to the download of a URL, and whether writing and copying the file raise.
\<close>

record firefly_env =
  firefly_hour :: nat
  firefly_month :: nat
  firefly_stamp :: string
  firefly_iso :: string
  firefly_post :: "string \<Rightarrow> py_exception + http_response"
  firefly_jobs :: "nat \<Rightarrow> poll"
  firefly_wait_start :: nat
  firefly_get :: "string \<Rightarrow> py_exception + http_response"
  write_raises :: bool
  copy_raises :: bool

text \<open>
  \<open>_call_firefly_api\<close>. \<open>'job_id' in result\<close> is also defined on a list and on a string,
  where the subscript \<open>result['job_id']\<close> that follows raises; every exception gives
  \<open>None\<close>.
\<close>

definition call_firefly_api :: "firefly_env \<Rightarrow> string \<Rightarrow> json option" where
  "call_firefly_api env prompt_text =
     (case firefly_post env prompt_text of
        Inl e \<Rightarrow> None
      | Inr response \<Rightarrow>
          if status_code response = 200
          then
            (case json_body response of
               None \<Rightarrow> None
             | Some result \<Rightarrow>
                 (case py_in ''job_id'' result of
                    Inl e \<Rightarrow> None
                  | Inr True \<Rightarrow>
                      (case py_key result ''job_id'' of
                         Inl e \<Rightarrow> None
                       | Inr job_id \<Rightarrow>
                           fst (wait_for_generation (firefly_jobs env) 300 (firefly_wait_start env)))
                  | Inr False \<Rightarrow> Some result))
          else None)"

text \<open>
  \<open>_download_video\<close>; \<open>raise_for_status\<close> raises on the statuses from 400 to 599.
\<close>

definition download_video :: "firefly_env \<Rightarrow> files \<Rightarrow> json \<Rightarrow> string option \<times> files" where
  "download_video env fs generation_result =
     (case generation_result of
        JObj kvs \<Rightarrow>
          (let download_url = py_or (dict_get kvs ''download_url'' JNull) (dict_get kvs ''url'' JNull)
           in if \<not> truthy download_url then (None, fs)
              else
                (let filename = ''background_'' @ firefly_stamp env @ ''.mp4'';
                     filepath = ''videos/backgrounds/'' @ filename
                 in case (case download_url of JStr u \<Rightarrow> firefly_get env u | _ \<Rightarrow> Inl TypeError) of
                      Inl e \<Rightarrow> (None, fs)
                    | Inr response \<Rightarrow>
                        if 400 \<le> status_code response \<and> status_code response < 600
                        then (None, fs)
                        else if stream_broken response \<or> write_raises env then (None, fs)
                        else (Some filepath, fs(filepath \<mapsto> concat (chunks response)))))
      | _ \<Rightarrow> (None, fs))"

text \<open>
  \<open>str.replace(old, new)\<close> for a non-empty \<open>old\<close>: occurrences are replaced from the
  left and do not overlap; \<open>skip\<close> counts the characters of a replaced occurrence that
  are still to be passed over.
\<close>

fun replace_from :: "string \<Rightarrow> string \<Rightarrow> nat \<Rightarrow> string \<Rightarrow> string" where
  "replace_from old new skip [] = []"
| "replace_from old new skip (c # cs) =
     (if 0 < skip then replace_from old new (skip - 1) cs
      else if take (length old) (c # cs) = old
      then new @ replace_from old new (length old - 1) cs
      else c # replace_from old new 0 cs)"

definition py_replace :: "string \<Rightarrow> string \<Rightarrow> string \<Rightarrow> string" where
  "py_replace s old new = replace_from old new 0 s"

text \<open>
  \<open>_process_for_looping\<close> copies the file; when the copy raises, the original path is
  returned.
\<close>

definition process_for_looping :: "firefly_env \<Rightarrow> files \<Rightarrow> string \<Rightarrow> string \<times> files" where
  "process_for_looping env fs video_path =
     (let output_path = py_replace video_path ''.mp4'' ''_loop.mp4''
      in case (if copy_raises env then None else fs video_path) of
           None \<Rightarrow> (video_path, fs)
         | Some content \<Rightarrow> (output_path, fs(output_path \<mapsto> content)))"

text \<open>The dictionary that \<open>generate_background\<close> returns.\<close>

record background =
  background_filename :: string
  background_prompt :: string
  background_mood :: string
  background_duration :: int
  background_resolution :: string
  background_created_at :: string
  background_metadata :: "(string \<times> json) list"

definition generate_background ::
  "firefly_env \<Rightarrow> files \<Rightarrow> string \<Rightarrow> string \<Rightarrow> (string \<times> json) list option \<Rightarrow>
   background option \<times> files" where
  "generate_background env fs prompt_text mood metadata =
     (case enhance_prompt (firefly_hour env) (firefly_month env) prompt_text mood of
        Inl e \<Rightarrow> (None, fs)
      | Inr enhanced_prompt \<Rightarrow>
          (case call_firefly_api env enhanced_prompt of
             None \<Rightarrow> (None, fs)
           | Some generation_result \<Rightarrow>
               if truthy generation_result
               then
                 (case download_video env fs generation_result of
                    (None, fs1) \<Rightarrow> (None, fs1)
                  | (Some video_path, fs1) \<Rightarrow>
                      (case process_for_looping env fs1 video_path of
                         (processed_path, fs2) \<Rightarrow>
                           (Some \<lparr> background_filename = processed_path,
                                   background_prompt = prompt_text,
                                   background_mood = mood,
                                   background_duration = video_duration,
                                   background_resolution = video_resolution,
                                   background_created_at = firefly_iso env,
                                   background_metadata =
                                     (case metadata of Some m \<Rightarrow> m | None \<Rightarrow> []) \<rparr>, fs2)))
               else (None, fs)))"

text \<open>
  \<open>create_mood_background\<close> first chooses the prompt, outside any handler, and then
  calls \<open>generate_background\<close> with it. \<open>mood_background_prompt\<close> is that first part;
  \<open>if user_request\<close> fails on \<open>None\<close> and on the empty string.
\<close>

definition mood_background_prompt :: "string \<Rightarrow> string option \<Rightarrow> py_exception + string" where
  "mood_background_prompt mood user_request =
     (case (if mood \<in> fst ` set mood_prompts
            then first_of mood_prompts mood
            else Inr ''abstract flowing patterns with gentle movement'') of
        Inl e \<Rightarrow> Inl e
      | Inr base_prompt \<Rightarrow>
          (case user_request of
             Some (c # cs) \<Rightarrow> Inr (base_prompt @ '', inspired by: '' @ (c # cs))
           | _ \<Rightarrow> Inr base_prompt))"

definition create_mood_background ::
  "firefly_env \<Rightarrow> files \<Rightarrow> string \<Rightarrow> string option \<Rightarrow>
   py_exception + (background option \<times> files)" where
  "create_mood_background env fs mood user_request =
     (case mood_background_prompt mood user_request of
        Inl e \<Rightarrow> Inl e
      | Inr prompt_text \<Rightarrow> Inr (generate_background env fs prompt_text mood None))"

section \<open>Simulated collaborators\<close>

text \<open>
  Concrete environments on which the functions above are run: responses without a
  broken body, a generation endpoint that answers with an audio URL, a download that
  succeeds and one that answers 404, and video and image backends that stay pending,
  complete or fail at a given poll, all answering at once.
\<close>

definition response_of :: "nat \<Rightarrow> json option \<Rightarrow> bytes list \<Rightarrow> http_response" where
  "response_of st body cs =
     \<lparr> status_code = st, json_body = body, text_body = [], chunks = cs, stream_broken = False \<rparr>"

definition no_files :: files where
  "no_files = Map.empty"

definition song_result :: json where
  "song_result = JObj [(''audio_url'', JStr ''https://cdn.example/a.mp3''), (''id'', JStr ''s1'')]"

definition studio_env :: suno_env where
  "studio_env =
     \<lparr> clock_date = 0, clock_hour = 9, clock_stamp = ''20240101_090000'',
       clock_iso = ''2024-01-01T09:00:00'',
       http_post = (\<lambda>payload. Inr (response_of 200 (Some song_result) [])),
       http_get = (\<lambda>url. Inr (response_of 200 None [''ID3'', ''audio''])),
       fs_raises = False \<rparr>"

definition lost_download_env :: suno_env where
  "lost_download_env = studio_env\<lparr> http_get := (\<lambda>url. Inr (response_of 404 None [])) \<rparr>"

definition studio_attempt :: attempt where
  "studio_attempt =
     \<lparr> attempt_env = studio_env, attempt_prompt = ''make it jazzy'',
       attempt_mood = ''chill'', attempt_metadata = None \<rparr>"

definition job_status :: "string \<Rightarrow> poll" where
  "job_status s =
     \<lparr> poll_latency = 0,
       poll_reply = Inr (response_of 200 (Some (JObj [(''status'', JStr s)])) []) \<rparr>"

definition always_pending :: "nat \<Rightarrow> poll" where
  "always_pending k = job_status ''processing''"

definition completes_at :: "nat \<Rightarrow> nat \<Rightarrow> poll" where
  "completes_at n k = (if k < n then job_status ''processing'' else job_status ''completed'')"

definition fails_at :: "nat \<Rightarrow> nat \<Rightarrow> poll" where
  "fails_at n k = (if k < n then job_status ''processing'' else job_status ''failed'')"

definition image_queued :: "string \<Rightarrow> image_poll" where
  "image_queued prompt_id =
     \<lparr> image_latency = 0,
       queue_reply = Inr (response_of 200
         (Some (JObj [(''queue_remaining'', JArr [JArr [JNum 0, JStr prompt_id]])])) []),
       history_reply = Inr (response_of 200 (Some (JObj [])) []),
       view_reply = (\<lambda>filename subfolder type. Inr (response_of 404 None [])) \<rparr>"

definition image_done :: "string \<Rightarrow> image_poll" where
  "image_done prompt_id =
     \<lparr> image_latency = 0,
       queue_reply = Inr (response_of 200 (Some (JObj [(''queue_remaining'', JArr [])])) []),
       history_reply = Inr (response_of 200
         (Some (JObj [(prompt_id,
            JObj [(''outputs'',
              JObj [(''7'', JObj [(''images'',
                JArr [JObj [(''filename'', JStr ''anime_album_art_00001_.png'')]])])])])])) []),
       view_reply = (\<lambda>filename subfolder type. Inr (response_of 200 None [''PNG''])) \<rparr>"

definition image_always_pending :: "string \<Rightarrow> nat \<Rightarrow> image_poll" where
  "image_always_pending prompt_id k = image_queued prompt_id"

definition image_completes_at :: "string \<Rightarrow> nat \<Rightarrow> nat \<Rightarrow> image_poll" where
  "image_completes_at prompt_id n k = (if k < n then image_queued prompt_id else image_done prompt_id)"

definition image_unreachable :: image_poll where
  "image_unreachable =
     \<lparr> image_latency = 0, queue_reply = Inl ClientError, history_reply = Inl ClientError,
       view_reply = (\<lambda>filename subfolder type. Inl ClientError) \<rparr>"

definition image_drops_at :: "string \<Rightarrow> nat \<Rightarrow> nat \<Rightarrow> image_poll" where
  "image_drops_at prompt_id n k = (if k < n then image_queued prompt_id else image_unreachable)"

text \<open>
  Status sources that write the name of every call into the shared state, a list of
  names: all three answer; the playback controller raises; the queue manager raises on
  the pending requests; the playback controller raises in the second round only, when
  five calls have been made. \<open>silent_sources\<close> answer and leave the state alone.
\<close>

definition studio_sources :: "string list status_sources" where
  "studio_sources =
     \<lparr> get_queue_size = (\<lambda>w. (Inr (JNum 3), w @ [''get_queue_size''])),
       get_pending_requests = (\<lambda>w. (Inr (JNum 1), w @ [''get_pending_requests''])),
       get_stream_status = (\<lambda>w. (Inr (JStr ''live''), w @ [''get_stream_status''])) \<rparr>"

definition obs_down_sources :: "string list status_sources" where
  "obs_down_sources =
     studio_sources\<lparr> get_stream_status := (\<lambda>w. (Inl ClientError, w @ [''get_stream_status''])) \<rparr>"

definition queue_down_sources :: "string list status_sources" where
  "queue_down_sources =
     studio_sources\<lparr> get_pending_requests :=
       (\<lambda>w. (Inl AttributeError, w @ [''get_pending_requests''])) \<rparr>"

definition obs_flaky_sources :: "string list status_sources" where
  "obs_flaky_sources =
     studio_sources\<lparr> get_stream_status :=
       (\<lambda>w. (if length w = 5 then Inl ClientError else Inr (JStr ''live''),
              w @ [''get_stream_status''])) \<rparr>"

definition silent_sources :: "string list status_sources" where
  "silent_sources =
     \<lparr> get_queue_size = (\<lambda>w. (Inr (JNum 3), w)),
       get_pending_requests = (\<lambda>w. (Inr (JNum 1), w)),
       get_stream_status = (\<lambda>w. (Inr (JStr ''live''), w)) \<rparr>"

text \<open>
  A video backend that answers at once with a download URL, and a download that
  succeeds.
\<close>

definition video_studio_env :: firefly_env where
  "video_studio_env =
     \<lparr> firefly_hour = 9, firefly_month = 1, firefly_stamp = ''20240101_090000'',
       firefly_iso = ''2024-01-01T09:00:00'',
       firefly_post = (\<lambda>prompt_text. Inr (response_of 200
         (Some (JObj [(''download_url'', JStr ''https://cdn.example/b.mp4'')])) [])),
       firefly_jobs = always_pending,
       firefly_wait_start = 0,
       firefly_get = (\<lambda>url. Inr (response_of 200 None [''mp4'', ''video''])),
       write_raises = False,
       copy_raises = False \<rparr>"

section \<open>The budget gate: what a generation attempt does to the client\<close>

lemma reset_keeps_config:
  "daily_budget (reset_daily_usage_if_needed d c) = daily_budget c"
  "cost_per_generation (reset_daily_usage_if_needed d c) = cost_per_generation c"
  "current_model (reset_daily_usage_if_needed d c) = current_model c"
  by (simp_all add: reset_daily_usage_if_needed_def)

text \<open>
  Whatever the outside world does, \<open>generate_music\<close> leaves the client either as the
  budget check left it, or tracked once after a check that passed.
\<close>

lemma generate_music_client:
  assumes "generate_music env c fs p m md = (r, c', fs')"
  shows "c' = snd (check_budget (clock_date env) c) \<or>
         (fst (check_budget (clock_date env) c) \<and>
          c' = track_usage (snd (check_budget (clock_date env) c)))"
  using assms
  by (auto simp: generate_music_def Let_def
      split: prod.splits bool.splits sum.splits if_splits option.splits)

lemma generate_music_config:
  assumes "generate_music env c fs p m md = (r, c', fs')"
  shows "daily_budget c' = daily_budget c" "cost_per_generation c' = cost_per_generation c"
  using generate_music_client [OF assms]
  by (auto simp: check_budget_def track_usage_def Let_def reset_keeps_config)

lemma generate_music_bound:
  assumes "generate_music env c fs p m md = (r, c', fs')"
    and "0 \<le> daily_budget c + cost_per_generation c"
    and "cost_estimate (daily_usage c) \<le> daily_budget c + cost_per_generation c"
  shows "cost_estimate (daily_usage c') \<le> daily_budget c + cost_per_generation c"
  using generate_music_client [OF assms(1)] assms(2,3)
  by (auto simp: check_budget_def track_usage_def Let_def reset_daily_usage_if_needed_def
      split: if_splits)

text \<open>The definitions that running the music client on a concrete environment unfolds.\<close>

lemmas suno_run_defs =
  studio_attempt_def studio_env_def lost_download_env_def init_client_def generate_music_def
  check_budget_def reset_daily_usage_if_needed_def track_usage_def Let_def
  enhance_city_pop_prompt_def first_of_def table_index_def first_item_def city_pop_templates_def
  response_of_def process_generation_result_def song_result_def download_audio_def dict_get_def
  py_or_def payload_of_def no_files_def

lemma studio_run:
  "cost_estimate (daily_usage (fst (run_attempts (init_client (1 / 50) 0) no_files
       [studio_attempt, studio_attempt, studio_attempt]))) = 1 / 50"
  by (simp add: suno_run_defs)

section \<open>The budget gate: calls that overlap and calls that do not\<close>

lemma run_events_append:
  "run_events c pending (events @ later) =
     (case run_events c pending events of (c', pending') \<Rightarrow> run_events c' pending' later)"
  by (induction c pending events rule: run_events.induct)
     (auto split: prod.splits bool.splits)

text \<open>
  What one call that is not interrupted does to the counter: the check, and the tracking
  when the check has passed and the request is answered. No call is left pending.
\<close>

lemma serial_call:
  "run_events c [] (serial_events [(i, today, answered)]) =
     (if answered \<and> fst (check_budget today c) then track_usage (snd (check_budget today c))
      else snd (check_budget today c), [])"
  by (cases "check_budget today c") (auto split: bool.splits)

lemma serial_call_config:
  assumes "run_events c [] (serial_events [(i, today, answered)]) = (c', pending')"
  shows "daily_budget c' = daily_budget c" "cost_per_generation c' = cost_per_generation c"
  using assms unfolding serial_call
  by (auto simp: check_budget_def track_usage_def Let_def reset_keeps_config split: if_splits)

lemma serial_call_bound:
  assumes "run_events c [] (serial_events [(i, today, answered)]) = (c', pending')"
    and "0 \<le> daily_budget c + cost_per_generation c"
    and "cost_estimate (daily_usage c) \<le> daily_budget c + cost_per_generation c"
  shows "cost_estimate (daily_usage c') \<le> daily_budget c + cost_per_generation c"
  using assms unfolding serial_call
  by (auto simp: check_budget_def track_usage_def Let_def reset_daily_usage_if_needed_def
      split: if_splits)

lemma serial_events_bound:
  assumes "0 \<le> daily_budget c + cost_per_generation c"
    and "cost_estimate (daily_usage c) \<le> daily_budget c + cost_per_generation c"
  shows "cost_estimate (daily_usage (fst (run_events c [] (serial_events calls))))
           \<le> daily_budget c + cost_per_generation c"
  using assms
proof (induction calls arbitrary: c)
  case Nil
  then show ?case by simp
next
  case (Cons call calls)
  obtain i today answered where call: "call = (i, today, answered)"
    by (cases call) auto
  obtain c' where one: "run_events c [] (serial_events [(i, today, answered)]) = (c', [])"
    unfolding serial_call by simp
  have split: "serial_events (call # calls) = serial_events [(i, today, answered)] @ serial_events calls"
    by (simp add: call)
  note cfg = serial_call_config [OF one]
  have "cost_estimate (daily_usage c') \<le> daily_budget c' + cost_per_generation c'"
    using serial_call_bound [OF one Cons.prems] by (simp add: cfg)
  then have "cost_estimate (daily_usage (fst (run_events c' [] (serial_events calls))))
               \<le> daily_budget c' + cost_per_generation c'"
    using Cons.IH [of c'] Cons.prems(1) by (simp add: cfg)
  then show ?case
    unfolding split run_events_append one by (simp add: cfg)
qed

text \<open>
  A \<open>generate_music\<close> call that runs from its start to its end without another call in
  between does to the client what the trace of one serial call does, and so does a run of
  such calls.
\<close>

lemma generate_music_is_serial:
  assumes "generate_music env c fs p m md = (r, c', fs')"
  shows "\<exists>answered. c' = fst (run_events c [] (serial_events [(i, clock_date env, answered)]))"
proof -
  from generate_music_client [OF assms]
  have "c' = fst (run_events c [] (serial_events [(i, clock_date env, False)])) \<or>
        c' = fst (run_events c [] (serial_events [(i, clock_date env, True)]))"
    unfolding serial_call by auto
  then show ?thesis by blast
qed

lemma run_attempts_is_serial:
  "\<exists>calls. length calls = length as \<and>
     fst (run_attempts c fs as) = fst (run_events c [] (serial_events calls))"
proof (induction as arbitrary: c fs)
  case Nil
  have "length ([] :: (nat \<times> nat \<times> bool) list) = length ([] :: attempt list) \<and>
        fst (run_attempts c fs []) = fst (run_events c [] (serial_events []))"
    by simp
  then show ?case by blast
next
  case (Cons a as)
  obtain r c' fs' where g:
    "generate_music (attempt_env a) c fs (attempt_prompt a) (attempt_mood a) (attempt_metadata a)
       = (r, c', fs')"
    by (metis prod_cases3)
  from generate_music_is_serial [OF g, of 0] obtain answered
    where one: "c' = fst (run_events c [] (serial_events [(0, clock_date (attempt_env a), answered)]))"
    by blast
  from Cons.IH [of c' fs'] obtain calls
    where rest: "length calls = length as"
      "fst (run_attempts c' fs' as) = fst (run_events c' [] (serial_events calls))"
    by blast
  have pend: "run_events c [] (serial_events [(0, clock_date (attempt_env a), answered)]) = (c', [])"
    using one unfolding serial_call by simp
  have "serial_events ((0, clock_date (attempt_env a), answered) # calls)
          = serial_events [(0, clock_date (attempt_env a), answered)] @ serial_events calls"
    by simp
  then have "fst (run_events c [] (serial_events ((0, clock_date (attempt_env a), answered) # calls)))
          = fst (run_events c' [] (serial_events calls))"
    by (simp only: run_events_append pend prod.case)
  with rest g have
    "length ((0, clock_date (attempt_env a), answered) # calls) = length (a # as) \<and>
     fst (run_attempts c fs (a # as))
       = fst (run_events c [] (serial_events ((0, clock_date (attempt_env a), answered) # calls)))"
    by simp
  then show ?case by blast
qed

text \<open>
  Claim C1 as stated fails. With a budget of 0.01, three calls that overlap all pass their
  check before any of them tracks, and the recorded cost ends at 0.03, above the bound of
  0.02. And with a budget below minus the cost of one generation, here -1, the cost of 0
  that a fresh client records is above the bound before any call is made.
\<close>

theorem overlapping_calls_overshoot:
  "cost_estimate (daily_usage (fst (run_events (init_client (1 / 100) 0) []
      [Check 0 0, Check 1 0, Check 2 0, Track 0, Track 1, Track 2]))) = 3 / 100
   \<and> daily_budget (init_client (1 / 100) 0) + cost_per_generation (init_client (1 / 100) 0)
       = 2 / 100
   \<and> \<not> cost_estimate (daily_usage (fst (run_events (init_client (1 / 100) 0) []
          [Check 0 0, Check 1 0, Check 2 0, Track 0, Track 1, Track 2])))
        \<le> daily_budget (init_client (1 / 100) 0) + cost_per_generation (init_client (1 / 100) 0)
   \<and> \<not> cost_estimate (daily_usage (fst (run_events (init_client (- 1) 0) [] [])))
        \<le> daily_budget (init_client (- 1) 0) + cost_per_generation (init_client (- 1) 0)"
  by (simp add: init_client_def check_budget_def reset_daily_usage_if_needed_def track_usage_def
      Let_def)

text \<open>
  Claim C1, amended (bounded overshoot of calls that do not overlap). If the budget plus
  the cost of one generation is not negative (any budget that is not negative will do) and
  the recorded cost starts within that bound, as the zero of a fresh client does, then
  after any trace of calls that do not overlap, and so after any run of \<open>generate_music\<close>
  calls made one after the other, whatever the dates, prompts and backend answers, the
  recorded \<open>cost_estimate\<close> is at most \<open>daily_budget + cost_per_generation\<close>.
\<close>

theorem bounded_overshoot:
  assumes "0 \<le> daily_budget c + cost_per_generation c"
    and "cost_estimate (daily_usage c) \<le> daily_budget c + cost_per_generation c"
  shows "cost_estimate (daily_usage (fst (run_events c [] (serial_events calls))))
           \<le> daily_budget c + cost_per_generation c
         \<and> cost_estimate (daily_usage (fst (run_attempts c fs as)))
             \<le> daily_budget c + cost_per_generation c"
proof -
  obtain calls' where "fst (run_attempts c fs as) = fst (run_events c [] (serial_events calls'))"
    using run_attempts_is_serial by blast
  then show ?thesis
    using serial_events_bound [OF assms, of calls] serial_events_bound [OF assms, of calls']
    by simp
qed

text \<open>
  The bound at work: a fresh client with a budget of 0.02, three serial calls that are
  all answered, and three attempts against a backend that always delivers. The third
  call is turned away, the recorded cost is 0.02, and the bound 0.03 holds.
\<close>

lemma serial_run:
  "cost_estimate (daily_usage (fst (run_events (init_client (1 / 50) 0) []
      (serial_events [(0, 0, True), (1, 0, True), (2, 0, True)])))) = 1 / 50"
  by (simp add: init_client_def check_budget_def reset_daily_usage_if_needed_def track_usage_def
      Let_def)

theorem bounded_overshoot_witness:
  "0 \<le> daily_budget (init_client (1 / 50) 0) + cost_per_generation (init_client (1 / 50) 0)
   \<and> cost_estimate (daily_usage (init_client (1 / 50) 0))
        \<le> daily_budget (init_client (1 / 50) 0) + cost_per_generation (init_client (1 / 50) 0)
   \<and> cost_estimate (daily_usage (fst (run_events (init_client (1 / 50) 0) []
          (serial_events [(0, 0, True), (1, 0, True), (2, 0, True)])))) \<le> 3 / 100
   \<and> cost_estimate (daily_usage (fst (run_attempts (init_client (1 / 50) 0) no_files
          [studio_attempt, studio_attempt, studio_attempt]))) \<le> 3 / 100"
  using bounded_overshoot [of "init_client (1 / 50) 0"
      "[(0, 0, True), (1, 0, True), (2, 0, True)]" no_files
      "[studio_attempt, studio_attempt, studio_attempt]"]
  by (simp add: init_client_def)

section \<open>Admission and the usage snapshot\<close>

text \<open>
  Claim C3 (admission). \<open>_check_budget\<close> answers for the counter as it is after the lazy
  reset: it admits if and only if the cost recorded for today (zero when the stored date is
  another day) is strictly below the daily budget, and it leaves the counter untouched on
  the same day and at \<open>(0, 0, today)\<close> otherwise; budget and cost per generation do
  not change. With a budget of 0.02 and a cost of 0.01 per generation, on one day \<open>d\<close>
  the first and the second check pass, each followed by its tracking, the third fails, and
  \<open>generate_music\<close> then returns \<open>None\<close> on that day whatever the request and the
  outside world are.
\<close>

theorem check_budget_admission:
  "(fst (check_budget today c) \<longleftrightarrow>
      (if last_reset (daily_usage c) = today then cost_estimate (daily_usage c) else 0)
        < daily_budget c)
   \<and> daily_usage (snd (check_budget today c)) =
       (if last_reset (daily_usage c) = today then daily_usage c
        else \<lparr> generations = 0, cost_estimate = 0, last_reset = today \<rparr>)
   \<and> daily_budget (snd (check_budget today c)) = daily_budget c
   \<and> cost_per_generation (snd (check_budget today c)) = cost_per_generation c
   \<and> fst (check_budget d (init_client (2 / 100) d))
   \<and> fst (check_budget d (track_usage (snd (check_budget d (init_client (2 / 100) d)))))
   \<and> \<not> fst (check_budget d (track_usage (snd (check_budget d
         (track_usage (snd (check_budget d (init_client (2 / 100) d))))))))
   \<and> generate_music (env\<lparr> clock_date := d \<rparr>)
         (track_usage (snd (check_budget d (track_usage (snd (check_budget d
            (init_client (2 / 100) d)))))))
         fs p m md
       = (None, track_usage (snd (check_budget d (track_usage (snd (check_budget d
            (init_client (2 / 100) d)))))), fs)"
  by (simp add: check_budget_def reset_daily_usage_if_needed_def Let_def init_client_def
      track_usage_def generate_music_def)

text \<open>
  Claim C10 (remaining generations). Whenever \<open>get_usage_stats\<close> returns, the
  \<open>generations_remaining\<close> it reports is at least 0, for every state of the counter; it
  returns whenever the cost per generation is not zero (the source fixes it at 0.01). The
  \<open>budget_remaining\<close> of the same snapshot can be negative: with a budget of 0.015,
  after two tracked generations it is -0.005 while \<open>generations_remaining\<close> is 0.
\<close>

theorem generations_remaining_clamped:
  "(\<forall>s c'. get_usage_stats today c = Inr (s, c') \<longrightarrow> 0 \<le> stats_generations_remaining s)
   \<and> (cost_per_generation c \<noteq> 0 \<longrightarrow> (\<exists>s c'. get_usage_stats today c = Inr (s, c')))
   \<and> (case get_usage_stats 0 (track_usage (track_usage (init_client (3 / 200) 0))) of
         Inr (s, c') \<Rightarrow> stats_budget_remaining s < 0 \<and> stats_generations_remaining s = 0
       | Inl e \<Rightarrow> False)"
  by (auto simp: get_usage_stats_def Let_def py_int_def init_client_def track_usage_def
      reset_daily_usage_if_needed_def split: if_splits)

theorem generations_remaining_clamped_witness:
  "cost_per_generation (track_usage (track_usage (init_client (3 / 200) 0))) \<noteq> 0
   \<and> (\<exists>s c'. get_usage_stats 0 (track_usage (track_usage (init_client (3 / 200) 0))) = Inr (s, c')
         \<and> 0 \<le> stats_generations_remaining s \<and> stats_budget_remaining s = - (1 / 200))"
proof -
  let ?c = "track_usage (track_usage (init_client (3 / 200) 0))"
  have nz: "cost_per_generation ?c \<noteq> 0"
    by (simp add: track_usage_def init_client_def)
  from generations_remaining_clamped [of 0 ?c] nz
  obtain s c' where g: "get_usage_stats 0 ?c = Inr (s, c')" and "0 \<le> stats_generations_remaining s"
    by blast
  moreover have "stats_budget_remaining s = - (1 / 200)"
    using g by (auto simp: get_usage_stats_def Let_def init_client_def track_usage_def
        reset_daily_usage_if_needed_def split: if_splits)
  ultimately show ?thesis using nz by blast
qed

section \<open>Usage tracking and the outcome of an attempt\<close>

text \<open>
  Claim C2 as stated fails: an attempt that returns \<open>None\<close> can have incremented the
  counter. Here the backend answers 200 with an audio URL and the download answers 404:
  \<open>generate_music\<close> returns \<open>None\<close>, and the fresh counter stands at 1.
\<close>

theorem failed_attempt_is_recorded:
  "fst (generate_music lost_download_env (init_client (3 / 5) 0) no_files ''make it jazzy''
          ''chill'' None) = None
   \<and> generations (daily_usage (fst (snd (generate_music lost_download_env (init_client (3 / 5) 0)
          no_files ''make it jazzy'' ''chill'' None)))) = 1
   \<and> generations (daily_usage (init_client (3 / 5) 0)) = 0"
  by (simp add: suno_run_defs)

text \<open>
  Claim C2, amended. Usage is recorded at most once per attempt, and exactly when the
  budget check admitted the attempt and the generation endpoint answered the request with
  status 200 and a body that decodes: then the generation count grows by 1 and the cost by
  the fixed estimate, otherwise both stay as the budget check left them. An attempt that
  returns a track has been recorded. (What happens after the answer, a result without an
  audio URL or a failed download, does not undo the record.)
\<close>

theorem usage_recorded_iff_answered:
  assumes "generate_music env c fs p m md = (r, c', fs')"
  shows "(let c1 = snd (check_budget (clock_date env) c);
              answered = (fst (check_budget (clock_date env) c) \<and>
                (\<exists>enhanced response result.
                   enhance_city_pop_prompt (clock_hour env) p m = Inr enhanced \<and>
                   http_post env (payload_of c1 enhanced md) = Inr response \<and>
                   status_code response = 200 \<and> json_body response = Some result))
          in generations (daily_usage c') = generations (daily_usage c1) + (if answered then 1 else 0)
             \<and> cost_estimate (daily_usage c')
                 = cost_estimate (daily_usage c1) + (if answered then cost_per_generation c else 0)
             \<and> (r \<noteq> None \<longrightarrow> answered))"
  using assms
  by (auto simp: generate_music_def Let_def track_usage_def check_budget_def reset_keeps_config
      split: prod.splits bool.splits sum.splits if_splits option.splits)

theorem usage_recorded_iff_answered_witness:
  "generations (daily_usage (fst (snd (generate_music lost_download_env (init_client (3 / 5) 0)
      no_files ''make it jazzy'' ''chill'' None)))) = 1
   \<and> generations (daily_usage (fst (snd (generate_music studio_env
        (track_usage (track_usage (init_client (1 / 50) 0))) no_files
        ''make it jazzy'' ''chill'' None)))) = 2"
proof -
  let ?g = "generate_music lost_download_env (init_client (3 / 5) 0) no_files ''make it jazzy''
              ''chill'' None"
  have g: "?g = (fst ?g, fst (snd ?g), snd (snd ?g))" by simp
  have a: "\<exists>enhanced. enhance_city_pop_prompt 9 ''make it jazzy'' ''chill'' = Inr enhanced"
    by (simp add: suno_run_defs)
  have "generations (daily_usage (fst (snd ?g))) = 1"
    using usage_recorded_iff_answered [OF g] a
    by (simp add: Let_def check_budget_def reset_daily_usage_if_needed_def init_client_def
        lost_download_env_def studio_env_def response_of_def)
  moreover
  let ?h = "generate_music studio_env (track_usage (track_usage (init_client (1 / 50) 0))) no_files
              ''make it jazzy'' ''chill'' None"
  have h: "?h = (fst ?h, fst (snd ?h), snd (snd ?h))" by simp
  have "generations (daily_usage (fst (snd ?h))) = 2"
    using usage_recorded_iff_answered [OF h]
    by (simp add: Let_def check_budget_def reset_daily_usage_if_needed_def init_client_def
        track_usage_def studio_env_def)
  ultimately show ?thesis by simp
qed

section \<open>A track is a downloaded file\<close>

lemma download_audio_Some:
  assumes "download_audio env fs url = (Some path, fs')"
  shows "\<not> fs_raises env \<and> path = ''music/cityPop_'' @ clock_stamp env @ ''.mp3'' \<and>
         (\<exists>u response. url = JStr u \<and> http_get env u = Inr response \<and> status_code response = 200 \<and>
            \<not> stream_broken response \<and> fs' = fs(path \<mapsto> concat (chunks response)))"
  using assms
  by (cases url) (auto simp: download_audio_def Let_def split: if_splits sum.splits)

lemma process_generation_result_Some:
  assumes "process_generation_result env fs c result enhanced mood md = (Some t, fs')"
  shows "\<exists>url. truthy url \<and> download_audio env fs url = (Some (track_filename t), fs')"
  using assms
  by (cases result)
     (auto simp: process_generation_result_def Let_def split: if_splits prod.splits option.splits)

lemma generate_music_Some:
  assumes "generate_music env c fs p m md = (Some t, c', fs')"
  shows "\<exists>result enhanced. process_generation_result env fs c' result enhanced m md = (Some t, fs')"
  using assms
  by (auto simp: generate_music_def Let_def
      split: prod.splits bool.splits sum.splits if_splits option.splits)

lemma generate_music_failed_download:
  assumes "generate_music env c fs p m md = (r, c', fs')"
    and "enhance_city_pop_prompt (clock_hour env) p m = Inr enhanced"
    and "http_post env (payload_of (snd (check_budget (clock_date env) c)) enhanced md)
           = Inr response"
    and "json_body response = Some (JObj kvs)"
    and "fst (download_audio env fs
           (py_or (dict_get kvs ''audio_url'' JNull)
              (py_or (dict_get kvs ''audio'' JNull) (dict_get kvs ''url'' JNull)))) = None"
  shows "r = None"
  using assms
  by (auto simp: generate_music_def process_generation_result_def Let_def
      split: prod.splits bool.splits if_splits option.splits)

text \<open>
  Claim C6 (usable asset or failure). When \<open>generate_music\<close> returns a track, its
  \<open>filename\<close> is the local path \<open>music/cityPop_<stamp>.mp3\<close>, a download answered 200
  and was read to its end, and the file at that path holds the bytes of that answer. When
  the generation endpoint has answered with a result and the download of the audio URL of
  that result fails, \<open>generate_music\<close> returns \<open>None\<close>.
\<close>

theorem asset_or_failure:
  assumes "generate_music env c fs p m md = (r, c', fs')"
  shows "(\<forall>t. r = Some t \<longrightarrow>
            \<not> fs_raises env \<and>
            track_filename t = ''music/cityPop_'' @ clock_stamp env @ ''.mp3'' \<and>
            (\<exists>u response. http_get env u = Inr response \<and> status_code response = 200 \<and>
               \<not> stream_broken response \<and>
               fs' (track_filename t) = Some (concat (chunks response))))
         \<and> (\<forall>enhanced response kvs.
               enhance_city_pop_prompt (clock_hour env) p m = Inr enhanced \<and>
               http_post env (payload_of (snd (check_budget (clock_date env) c)) enhanced md)
                 = Inr response \<and>
               json_body response = Some (JObj kvs) \<and>
               fst (download_audio env fs
                 (py_or (dict_get kvs ''audio_url'' JNull)
                    (py_or (dict_get kvs ''audio'' JNull) (dict_get kvs ''url'' JNull)))) = None
               \<longrightarrow> r = None)"
proof (rule conjI)
  show "\<forall>t. r = Some t \<longrightarrow>
            \<not> fs_raises env \<and>
            track_filename t = ''music/cityPop_'' @ clock_stamp env @ ''.mp3'' \<and>
            (\<exists>u response. http_get env u = Inr response \<and> status_code response = 200 \<and>
               \<not> stream_broken response \<and>
               fs' (track_filename t) = Some (concat (chunks response)))"
  proof (intro allI impI)
    fix t assume r: "r = Some t"
    with assms generate_music_Some obtain result enhanced
      where "process_generation_result env fs c' result enhanced m md = (Some t, fs')"
      by blast
    then obtain url where d: "download_audio env fs url = (Some (track_filename t), fs')"
      using process_generation_result_Some by blast
    from download_audio_Some [OF d] obtain u response
      where s: "\<not> fs_raises env"
        "track_filename t = ''music/cityPop_'' @ clock_stamp env @ ''.mp3''"
        "http_get env u = Inr response" "status_code response = 200" "\<not> stream_broken response"
        "fs' = fs(track_filename t \<mapsto> concat (chunks response))"
      by blast
    from s(6) have "fs' (track_filename t) = Some (concat (chunks response))" by simp
    with s show "\<not> fs_raises env \<and>
            track_filename t = ''music/cityPop_'' @ clock_stamp env @ ''.mp3'' \<and>
            (\<exists>u response. http_get env u = Inr response \<and> status_code response = 200 \<and>
               \<not> stream_broken response \<and>
               fs' (track_filename t) = Some (concat (chunks response)))"
      by blast
  qed
next
  show "\<forall>enhanced response kvs.
               enhance_city_pop_prompt (clock_hour env) p m = Inr enhanced \<and>
               http_post env (payload_of (snd (check_budget (clock_date env) c)) enhanced md)
                 = Inr response \<and>
               json_body response = Some (JObj kvs) \<and>
               fst (download_audio env fs
                 (py_or (dict_get kvs ''audio_url'' JNull)
                    (py_or (dict_get kvs ''audio'' JNull) (dict_get kvs ''url'' JNull)))) = None
               \<longrightarrow> r = None"
    using generate_music_failed_download [OF assms] by blast
qed

lemma studio_track:
  "fst (generate_music studio_env (init_client (3 / 5) 0) no_files ''make it jazzy'' ''chill'' None)
     \<noteq> None"
  by (simp add: suno_run_defs)

lemma lost_download:
  "fst (download_audio lost_download_env no_files
          (py_or (dict_get [(''audio_url'', JStr ''https://cdn.example/a.mp3''), (''id'', JStr ''s1'')]
                    ''audio_url'' JNull)
             (py_or (dict_get [(''audio_url'', JStr ''https://cdn.example/a.mp3''),
                               (''id'', JStr ''s1'')] ''audio'' JNull)
                (dict_get [(''audio_url'', JStr ''https://cdn.example/a.mp3''),
                           (''id'', JStr ''s1'')] ''url'' JNull)))) = None"
  by (simp add: download_audio_def lost_download_env_def studio_env_def response_of_def
      py_or_def dict_get_def)

text \<open>
  Both sides at work: against the delivering backend the track names the file that holds
  the downloaded bytes; when the backend delivers and the download answers 404, the
  call returns \<open>None\<close>.
\<close>

theorem asset_or_failure_witness:
  "(\<exists>t c' fs'. generate_music studio_env (init_client (3 / 5) 0) no_files ''make it jazzy''
                ''chill'' None = (Some t, c', fs')
     \<and> track_filename t = ''music/cityPop_20240101_090000.mp3''
     \<and> fs' (track_filename t) = Some ''ID3audio'')
   \<and> fst (generate_music lost_download_env (init_client (3 / 5) 0) no_files ''make it jazzy''
            ''chill'' None) = None"
proof -
  obtain r c' fs' where g:
    "generate_music studio_env (init_client (3 / 5) 0) no_files ''make it jazzy'' ''chill'' None
       = (r, c', fs')"
    by (metis prod_cases3)
  with studio_track obtain t where r: "r = Some t" by auto
  from asset_or_failure [OF g] r
  obtain u response where f: "track_filename t = ''music/cityPop_'' @ clock_stamp studio_env @ ''.mp3''"
    and h: "http_get studio_env u = Inr response" "fs' (track_filename t) = Some (concat (chunks response))"
    by blast
  from h have "fs' (track_filename t) = Some ''ID3audio''"
    by (auto simp: studio_env_def response_of_def)
  moreover from f have "track_filename t = ''music/cityPop_20240101_090000.mp3''"
    by (simp add: studio_env_def)
  ultimately have first: "\<exists>t c' fs'. generate_music studio_env (init_client (3 / 5) 0) no_files
      ''make it jazzy'' ''chill'' None = (Some t, c', fs')
     \<and> track_filename t = ''music/cityPop_20240101_090000.mp3''
     \<and> fs' (track_filename t) = Some ''ID3audio''"
    using g r by blast
  let ?l = "generate_music lost_download_env (init_client (3 / 5) 0) no_files ''make it jazzy''
              ''chill'' None"
  have l: "?l = (fst ?l, fst (snd ?l), snd (snd ?l))" by simp
  obtain enhanced where e:
    "enhance_city_pop_prompt (clock_hour lost_download_env) ''make it jazzy'' ''chill''
       = Inr enhanced"
    by (simp add: suno_run_defs)
  have post: "http_post lost_download_env
                (payload_of (snd (check_budget (clock_date lost_download_env)
                   (init_client (3 / 5) 0))) enhanced None)
              = Inr (response_of 200 (Some song_result) [])"
    by (simp add: lost_download_env_def studio_env_def)
  have body: "json_body (response_of 200 (Some song_result) [])
                = Some (JObj [(''audio_url'', JStr ''https://cdn.example/a.mp3''),
                              (''id'', JStr ''s1'')])"
    by (simp add: response_of_def song_result_def)
  from asset_or_failure [OF l] e post body lost_download have "fst ?l = None"
    by blast
  with first show ?thesis by blast
qed

section \<open>Chat commands\<close>

lemmas chat_defs =
  process_chat_message_def message_get_def py_strip_def py_split_def py_lower_def py_upper_def
  lower_char_def upper_char_def ascii_uppercase_def ascii_lowercase_def is_space_def
  first_item_def Let_def

text \<open>
  Claim C4 (command examples). \<open>!generate make it jazzy\<close> from \<open>alice\<close> adds a user
  request whose prompt is made from \<open>make it jazzy\<close> for \<open>alice\<close>; \<open>!mood chill\<close> adds
  a request whose prompt is the mood prompt for \<open>chill\<close>; \<open>!vote A\<close> and \<open>!vote a\<close>
  both cast the vote \<open>A\<close>; \<open>!generate\<close> without an argument and \<open>hello\<close> leave the
  queue manager as it was. This holds for every prompt generator, queue manager and queue
  state.
\<close>

theorem command_examples:
  "process_chat_message co q [''text'' \<mapsto> ''!generate make it jazzy'', ''author'' \<mapsto> ''alice'']
     = Inr (add_user_request co (create_from_user_input co ''make it jazzy'' ''alice'') ''alice'' q)
   \<and> process_chat_message co q [''text'' \<mapsto> ''!mood chill'', ''author'' \<mapsto> author]
     = Inr (add_user_request co (create_mood_prompt co ''chill'' author) author q)
   \<and> process_chat_message co q [''text'' \<mapsto> ''!vote A'', ''author'' \<mapsto> author]
     = Inr (process_vote co ''A'' author q)
   \<and> process_chat_message co q [''text'' \<mapsto> ''!vote a'', ''author'' \<mapsto> author]
     = Inr (process_vote co ''A'' author q)
   \<and> process_chat_message co q [''text'' \<mapsto> ''!generate'', ''author'' \<mapsto> author] = Inr q
   \<and> process_chat_message co q [''text'' \<mapsto> ''hello'', ''author'' \<mapsto> author] = Inr q"
  by (simp add: chat_defs)

text \<open>
  When does processing a message of ASCII text raise? Exactly when the stripped text
  starts with the prefix character and nothing but white space follows it: then
  \<open>command\<close> is the empty list and \<open>command[0]\<close> raises \<open>IndexError\<close>. Every other
  message of ASCII text is processed without an exception.
\<close>

lemma process_chat_message_raises:
  assumes "is_ascii (message_get message ''text'' [])"
  shows "process_chat_message co q message = Inl e \<longleftrightarrow>
     e = IndexError \<and>
     take 1 (py_strip (message_get message ''text'' [])) = ''!'' \<and>
     py_split (py_lower (tl (py_strip (message_get message ''text'' [])))) = []"
  by (cases "py_split (py_lower (tl (py_strip (message_get message ''text'' []))))";
      cases "tl (py_split (py_lower (tl (py_strip (message_get message ''text'' [])))))")
     (auto simp: process_chat_message_def Let_def first_item_def)

text \<open>
  Claim C5 (processing never raises) fails on the code at the bare prefix character: the
  message \<open>!\<close> makes \<open>_process_chat_message\<close> raise \<open>IndexError\<close> instead of dropping
  the message.
\<close>

theorem bare_prefix_raises:
  "process_chat_message recording [] [''text'' \<mapsto> ''!'', ''author'' \<mapsto> ''alice'']
     = Inl IndexError"
  by (simp add: chat_defs)

section \<open>Prompts for unknown moods\<close>

lemma city_pop_first:
  "mood \<in> fst ` set city_pop_templates \<Longrightarrow> \<exists>t. first_of city_pop_templates mood = Inr t \<and> t \<noteq> []"
  by (auto simp: city_pop_templates_def first_of_def table_index_def first_item_def)

lemma mood_prompts_first:
  "mood \<in> fst ` set mood_prompts \<Longrightarrow> \<exists>t. first_of mood_prompts mood = Inr t \<and> t \<noteq> []"
  by (auto simp: mood_prompts_def first_of_def table_index_def first_item_def)

lemma chill_first:
  "first_of city_pop_templates ''chill''
     = Inr ''Relaxing city pop with smooth bass and dreamy synths, perfect for studying''"
  by (simp add: city_pop_templates_def first_of_def table_index_def first_item_def)

lemma chill_known: "''chill'' \<in> fst ` set city_pop_templates"
  by (simp add: city_pop_templates_def)

lemma enhance_city_pop_prompt_total:
  "\<exists>p. enhance_city_pop_prompt hour base mood = Inr p \<and> p \<noteq> []"
proof (cases "mood \<in> fst ` set city_pop_templates")
  case True
  from city_pop_first [OF True] obtain t where "first_of city_pop_templates mood = Inr t" "t \<noteq> []"
    by blast
  with True show ?thesis by (simp add: enhance_city_pop_prompt_def Let_def)
next
  case False
  then show ?thesis by (simp add: enhance_city_pop_prompt_def Let_def chill_first)
qed

lemma enhance_prompt_total:
  "\<exists>p. enhance_prompt hour month base mood = Inr p \<and> p \<noteq> []"
proof -
  obtain e1 where e1: "(if mood \<in> fst ` set mood_prompts
            then (case first_of mood_prompts mood of
                    Inl e \<Rightarrow> Inl e
                  | Inr mood_element \<Rightarrow> Inr (base @ '', '' @ mood_element))
            else Inr base) = Inr e1"
    using mood_prompts_first [of mood] by (cases "mood \<in> fst ` set mood_prompts") auto
  have "\<exists>e2. (if 5 \<le> hour \<and> hour < 12 then add_theme time_themes ''morning'' e1
                 else if 12 \<le> hour \<and> hour < 17
                 then add_theme time_themes ''afternoon'' e1
                 else if 17 \<le> hour \<and> hour < 21
                 then add_theme time_themes ''evening'' e1
                 else if 21 \<le> hour \<and> hour < 24
                 then add_theme time_themes ''night'' e1
                 else add_theme time_themes ''late_night'' e1) = Inr e2"
    by (simp add: add_theme_def table_index_def time_themes_def)
  then obtain e2 where e2: "(if 5 \<le> hour \<and> hour < 12 then add_theme time_themes ''morning'' e1
                 else if 12 \<le> hour \<and> hour < 17
                 then add_theme time_themes ''afternoon'' e1
                 else if 17 \<le> hour \<and> hour < 21
                 then add_theme time_themes ''evening'' e1
                 else if 21 \<le> hour \<and> hour < 24
                 then add_theme time_themes ''night'' e1
                 else add_theme time_themes ''late_night'' e1) = Inr e2" ..
  have "\<exists>e3. (if month \<in> set [3, 4, 5] then add_theme seasonal_themes ''spring'' e2
                      else if month \<in> set [6, 7, 8] then add_theme seasonal_themes ''summer'' e2
                      else if month \<in> set [9, 10, 11]
                      then add_theme seasonal_themes ''autumn'' e2
                      else add_theme seasonal_themes ''winter'' e2) = Inr e3"
    by (simp add: add_theme_def table_index_def seasonal_themes_def)
  then obtain e3 where e3: "(if month \<in> set [3, 4, 5] then add_theme seasonal_themes ''spring'' e2
                      else if month \<in> set [6, 7, 8] then add_theme seasonal_themes ''summer'' e2
                      else if month \<in> set [9, 10, 11]
                      then add_theme seasonal_themes ''autumn'' e2
                      else add_theme seasonal_themes ''winter'' e2) = Inr e3" ..
  show ?thesis
    unfolding enhance_prompt_def e1 sum.case e2 e3
    by (simp add: video_duration_text_def)
qed

lemma generate_background_Some:
  assumes "generate_background env fs p mood md = (Some b, fs')"
  shows "background_prompt b = p \<and> background_mood b = mood"
  using assms
  by (auto simp: generate_background_def split: sum.splits option.splits if_splits prod.splits)

lemma mood_background_prompt_total:
  "\<exists>p. mood_background_prompt mood request = Inr p \<and> p \<noteq> []"
proof (cases "mood \<in> fst ` set mood_prompts")
  case True
  from mood_prompts_first [OF True] obtain t where "first_of mood_prompts mood = Inr t" "t \<noteq> []"
    by blast
  with True show ?thesis
    by (auto simp: mood_background_prompt_def split: option.splits list.splits)
next
  case False
  then show ?thesis by (auto simp: mood_background_prompt_def split: option.splits list.splits)
qed

text \<open>
  Claim C8 as stated fails: there is no one default mood tag, and no tag \<open>general\<close>. For
  the unknown mood \<open>sleepy\<close> the music client builds the prompt of the tag \<open>chill\<close>,
  while the background generator starts from a text that is the prompt of no tag of its
  table, \<open>chill\<close> included, and \<open>_enhance_prompt\<close> adds no mood element at all, unlike
  for \<open>chill\<close>. \<open>general\<close> is a key of neither table.
\<close>

theorem no_single_default_tag:
  "''sleepy'' \<notin> fst ` set city_pop_templates
   \<and> ''sleepy'' \<notin> fst ` set mood_prompts
   \<and> ''general'' \<notin> fst ` set city_pop_templates
   \<and> ''general'' \<notin> fst ` set mood_prompts
   \<and> enhance_city_pop_prompt 9 ''piano'' ''sleepy'' = enhance_city_pop_prompt 9 ''piano'' ''chill''
   \<and> mood_background_prompt ''sleepy'' None
       = Inr ''abstract flowing patterns with gentle movement''
   \<and> ''abstract flowing patterns with gentle movement'' \<notin> set (concat (map snd mood_prompts))
   \<and> mood_background_prompt ''sleepy'' None \<noteq> mood_background_prompt ''chill'' None
   \<and> enhance_prompt 9 1 ''piano'' ''sleepy'' \<noteq> enhance_prompt 9 1 ''piano'' ''chill''"
  by (simp add: city_pop_templates_def mood_prompts_def enhance_city_pop_prompt_def
      mood_background_prompt_def first_of_def table_index_def first_item_def enhance_prompt_def
      add_theme_def time_themes_def seasonal_themes_def)

text \<open>
  Claim C8, amended. For a mood that is not a key of the template table,
  \<open>_enhance_city_pop_prompt\<close> builds the prompt it builds for the mood \<open>chill\<close>, and
  \<open>create_mood_background\<close> calls \<open>generate_background\<close> with the fixed text
  \<open>abstract flowing patterns with gentle movement\<close>, followed by \<open>, inspired by: \<close> and
  the user request when one is given and not empty, and with the mood string as it came.
  For every mood string, known or not, \<open>_enhance_city_pop_prompt\<close> returns a non-empty
  prompt, and \<open>create_mood_background\<close> raises nothing and calls \<open>generate_background\<close>
  with a non-empty prompt; a background that comes back carries that prompt and that
  mood.
\<close>

theorem unknown_mood_falls_back:
  "(mood \<notin> fst ` set city_pop_templates \<longrightarrow>
      enhance_city_pop_prompt hour base mood = enhance_city_pop_prompt hour base ''chill'')
   \<and> (\<exists>p. enhance_city_pop_prompt hour base mood = Inr p \<and> p \<noteq> [])
   \<and> (mood \<notin> fst ` set mood_prompts \<longrightarrow>
        create_mood_background env fs mood request
          = Inr (generate_background env fs
                   (case request of
                      Some (c # cs) \<Rightarrow>
                        ''abstract flowing patterns with gentle movement, inspired by: '' @ c # cs
                    | _ \<Rightarrow> ''abstract flowing patterns with gentle movement'')
                   mood None))
   \<and> (\<exists>p. p \<noteq> [] \<and>
          create_mood_background env fs mood request
            = Inr (generate_background env fs p mood None))
   \<and> (\<forall>p b fs'. create_mood_background env fs mood request
                    = Inr (generate_background env fs p mood None) \<and>
                  generate_background env fs p mood None = (Some b, fs')
                  \<longrightarrow> background_prompt b = p \<and> background_mood b = mood)"
proof -
  have a: "mood \<notin> fst ` set city_pop_templates \<longrightarrow>
      enhance_city_pop_prompt hour base mood = enhance_city_pop_prompt hour base ''chill''"
    by (simp add: enhance_city_pop_prompt_def)
  have b: "mood \<notin> fst ` set mood_prompts \<longrightarrow>
        create_mood_background env fs mood request
          = Inr (generate_background env fs
                   (case request of
                      Some (c # cs) \<Rightarrow>
                        ''abstract flowing patterns with gentle movement, inspired by: '' @ c # cs
                    | _ \<Rightarrow> ''abstract flowing patterns with gentle movement'')
                   mood None)"
    by (auto simp: create_mood_background_def mood_background_prompt_def
        split: option.splits list.splits)
  have c: "\<exists>p. p \<noteq> [] \<and>
          create_mood_background env fs mood request
            = Inr (generate_background env fs p mood None)"
    using mood_background_prompt_total [of mood request]
    by (auto simp: create_mood_background_def)
  have d: "\<forall>p b fs'. create_mood_background env fs mood request
                    = Inr (generate_background env fs p mood None) \<and>
                  generate_background env fs p mood None = (Some b, fs')
                  \<longrightarrow> background_prompt b = p \<and> background_mood b = mood"
    using generate_background_Some by blast
  from a enhance_city_pop_prompt_total b c d show ?thesis by blast
qed

text \<open>
  The unknown mood \<open>sleepy\<close> at work: the music prompt is that of \<open>chill\<close>, and against
  a video backend that delivers, the background that comes back carries the fixed text
  with the user request and the mood \<open>sleepy\<close>.
\<close>

lemma sleepy_unknown:
  "''sleepy'' \<notin> fst ` set city_pop_templates" "''sleepy'' \<notin> fst ` set mood_prompts"
  by (simp_all add: city_pop_templates_def mood_prompts_def)

lemma sleepy_background:
  "fst (generate_background video_studio_env no_files
          ''abstract flowing patterns with gentle movement, inspired by: rain'' ''sleepy'' None)
     = Some \<lparr> background_filename = ''videos/backgrounds/background_20240101_090000_loop.mp4'',
              background_prompt =
                ''abstract flowing patterns with gentle movement, inspired by: rain'',
              background_mood = ''sleepy'',
              background_duration = 30,
              background_resolution = ''1920x1080'',
              background_created_at = ''2024-01-01T09:00:00'',
              background_metadata = [] \<rparr>"
  by (simp add: generate_background_def enhance_prompt_def sleepy_unknown add_theme_def
      table_index_def time_themes_def seasonal_themes_def video_duration_def
      video_duration_text_def video_resolution_def call_firefly_api_def py_in_def py_key_def
      response_of_def video_studio_env_def download_video_def dict_get_def py_or_def
      process_for_looping_def py_replace_def no_files_def Let_def)

theorem unknown_mood_falls_back_witness:
  "''sleepy'' \<notin> fst ` set city_pop_templates \<and> ''sleepy'' \<notin> fst ` set mood_prompts
   \<and> enhance_city_pop_prompt 23 '' '' ''sleepy''
       = Inr (''Relaxing city pop with smooth bass and dreamy synths, perfect for studying''
              @ '', city pop genre, retro aesthetic, high quality production''
              @ '', late night vibes, intimate atmosphere'')
   \<and> (\<exists>fs'. create_mood_background video_studio_env no_files ''sleepy'' (Some ''rain'')
         = Inr (Some \<lparr> background_filename =
                         ''videos/backgrounds/background_20240101_090000_loop.mp4'',
                       background_prompt =
                         ''abstract flowing patterns with gentle movement, inspired by: rain'',
                       background_mood = ''sleepy'',
                       background_duration = 30,
                       background_resolution = ''1920x1080'',
                       background_created_at = ''2024-01-01T09:00:00'',
                       background_metadata = [] \<rparr>, fs'))"
proof -
  have chill: "enhance_city_pop_prompt 23 '' '' ''chill''
       = Inr (''Relaxing city pop with smooth bass and dreamy synths, perfect for studying''
              @ '', city pop genre, retro aesthetic, high quality production''
              @ '', late night vibes, intimate atmosphere'')"
    by (simp add: enhance_city_pop_prompt_def chill_first chill_known py_strip_def is_space_def)
  note t = unknown_mood_falls_back [of "''sleepy''" 23 "'' ''" video_studio_env no_files
      "Some ''rain''"]
  from t sleepy_unknown chill have music: "enhance_city_pop_prompt 23 '' '' ''sleepy''
       = Inr (''Relaxing city pop with smooth bass and dreamy synths, perfect for studying''
              @ '', city pop genre, retro aesthetic, high quality production''
              @ '', late night vibes, intimate atmosphere'')"
    by simp
  from t sleepy_unknown have "create_mood_background video_studio_env no_files ''sleepy''
      (Some ''rain'')
      = Inr (generate_background video_studio_env no_files
               ''abstract flowing patterns with gentle movement, inspired by: rain''
               ''sleepy'' None)"
    by simp
  then have video: "\<exists>fs'. create_mood_background video_studio_env no_files ''sleepy''
      (Some ''rain'')
      = Inr (Some \<lparr> background_filename =
                         ''videos/backgrounds/background_20240101_090000_loop.mp4'',
                       background_prompt =
                         ''abstract flowing patterns with gentle movement, inspired by: rain'',
                       background_mood = ''sleepy'',
                       background_duration = 30,
                       background_resolution = ''1920x1080'',
                       background_created_at = ''2024-01-01T09:00:00'',
                       background_metadata = [] \<rparr>, fs')"
    using sleepy_background
    by (metis prod.collapse)
  from sleepy_unknown music video show ?thesis by blast
qed

section \<open>The status loop\<close>

lemmas status_fixture_defs =
  studio_sources_def obs_down_sources_def queue_down_sources_def obs_flaky_sources_def
  silent_sources_def status_round_def

text \<open>
  Claim C9 as stated fails: when one source raises, the fields of the other sources are
  not reported. Here the queue size and the pending requests are available and the
  playback controller raises: all three have been asked, and the round logs the error
  and no status line.
\<close>

theorem snapshot_is_aborted:
  "get_queue_size obs_down_sources [] = (Inr (JNum 3), [''get_queue_size''])
   \<and> get_pending_requests obs_down_sources [''get_queue_size'']
       = (Inr (JNum 1), [''get_queue_size'', ''get_pending_requests''])
   \<and> status_round obs_down_sources []
       = ((Error_line ClientError, 60),
          [''get_queue_size'', ''get_pending_requests'', ''get_stream_status''])"
  by (simp add: status_fixture_defs)

lemma status_round_read_only:
  assumes "\<forall>v. snd (get_queue_size src v) = v"
    and "\<forall>v. snd (get_pending_requests src v) = v"
    and "\<forall>v. snd (get_stream_status src v) = v"
  shows "snd (status_round src w) = w"
proof -
  obtain a where a: "get_queue_size src w = (a, w)"
    using assms(1) by (metis prod.collapse)
  obtain b where b: "get_pending_requests src w = (b, w)"
    using assms(2) by (metis prod.collapse)
  obtain c where c: "get_stream_status src w = (c, w)"
    using assms(3) by (metis prod.collapse)
  show ?thesis
    by (simp add: status_round_def a b c split: sum.splits)
qed

lemma status_monitoring_loop_read_only:
  assumes "\<forall>v. snd (get_queue_size src v) = v"
    and "\<forall>v. snd (get_pending_requests src v) = v"
    and "\<forall>v. snd (get_stream_status src v) = v"
  shows "snd (status_monitoring_loop src rounds w) = w"
proof (induction rounds)
  case Nil
  then show ?case by simp
next
  case (Cons running rounds)
  obtain line where r: "status_round src w = (line, w)"
    using status_round_read_only [OF assms, of w] by (metis prod.collapse)
  obtain lines where l: "status_monitoring_loop src rounds w = (lines, w)"
    using Cons.IH by (metis prod.collapse)
  show ?case by (simp add: r l)
qed

lemma status_monitoring_loop_length:
  "list_all id rounds \<Longrightarrow> length (fst (status_monitoring_loop src rounds w)) = length rounds"
proof (induction rounds arbitrary: w)
  case Nil
  then show ?case by simp
next
  case (Cons running rounds)
  obtain line w1 where r: "status_round src w = (line, w1)"
    by (metis prod.collapse)
  obtain lines w2 where l: "status_monitoring_loop src rounds w1 = (lines, w2)"
    by (metis prod.collapse)
  from Cons.IH [of w1] Cons.prems l have "length lines = length rounds" by simp
  with Cons.prems show ?case by (simp add: r l)
qed

text \<open>
  Claim C9, amended. A round of the status loop calls its three sources in the order
  queue size, pending requests, playback-controller status, each on the state the call
  before it left, and stops calling at the first that raises. It logs a status line, with
  the three values, exactly when all three answer; when one raises, it logs that error
  instead of a snapshot, and in both cases it sleeps 60 seconds. The state after the round
  is the state after the last call made: the round changes nothing by itself, so when the
  three sources leave the state as it is, a round and the whole loop leave it as it is.
  As long as \<open>running\<close> holds at the start of each round, the loop goes through every
  round, whatever failed before.
\<close>

theorem status_round_in_order:
  "(get_queue_size src w = (Inl e, w1) \<longrightarrow> status_round src w = ((Error_line e, 60), w1))
   \<and> (get_queue_size src w = (Inr queue_size, w1) \<and>
        get_pending_requests src w1 = (Inl e, w2)
        \<longrightarrow> status_round src w = ((Error_line e, 60), w2))
   \<and> (get_queue_size src w = (Inr queue_size, w1) \<and>
        get_pending_requests src w1 = (Inr pending, w2) \<and>
        get_stream_status src w2 = (Inl e, w3)
        \<longrightarrow> status_round src w = ((Error_line e, 60), w3))
   \<and> (get_queue_size src w = (Inr queue_size, w1) \<and>
        get_pending_requests src w1 = (Inr pending, w2) \<and>
        get_stream_status src w2 = (Inr stream, w3)
        \<longrightarrow> status_round src w = ((Status_line queue_size pending stream, 60), w3))
   \<and> ((\<forall>v. snd (get_queue_size src v) = v) \<and> (\<forall>v. snd (get_pending_requests src v) = v) \<and>
        (\<forall>v. snd (get_stream_status src v) = v)
        \<longrightarrow> snd (status_round src w) = w \<and> snd (status_monitoring_loop src rounds w) = w)
   \<and> (list_all id rounds
        \<longrightarrow> length (fst (status_monitoring_loop src rounds w)) = length rounds)"
  using status_round_read_only [of src w] status_monitoring_loop_read_only [of src rounds w]
    status_monitoring_loop_length [of rounds src w]
  by (auto simp: status_round_def)

text \<open>
  The rounds at work. When the queue manager raises on the pending requests, the
  playback controller is not asked. When the playback controller raises in the second of
  three rounds, the loop logs a snapshot, the error and a snapshot again. Sources that
  leave the state alone give a loop that leaves it alone.
\<close>

theorem status_round_in_order_witness:
  "status_round queue_down_sources []
     = ((Error_line AttributeError, 60), [''get_queue_size'', ''get_pending_requests''])
   \<and> status_round studio_sources []
       = ((Status_line (JNum 3) (JNum 1) (JStr ''live''), 60),
          [''get_queue_size'', ''get_pending_requests'', ''get_stream_status''])
   \<and> list_all id [True, True, True]
   \<and> length (fst (status_monitoring_loop obs_flaky_sources [True, True, True] [])) = 3
   \<and> fst (status_monitoring_loop obs_flaky_sources [True, True, True] [])
       = [(Status_line (JNum 3) (JNum 1) (JStr ''live''), 60), (Error_line ClientError, 60),
          (Status_line (JNum 3) (JNum 1) (JStr ''live''), 60)]
   \<and> snd (status_monitoring_loop silent_sources [True, True, True] [''before'']) = [''before'']"
proof -
  have q: "get_queue_size queue_down_sources [] = (Inr (JNum 3), [''get_queue_size''])"
    "get_pending_requests queue_down_sources [''get_queue_size'']
       = (Inl AttributeError, [''get_queue_size'', ''get_pending_requests''])"
    by (simp_all add: status_fixture_defs)
  have s: "get_queue_size studio_sources [] = (Inr (JNum 3), [''get_queue_size''])"
    "get_pending_requests studio_sources [''get_queue_size'']
       = (Inr (JNum 1), [''get_queue_size'', ''get_pending_requests''])"
    "get_stream_status studio_sources [''get_queue_size'', ''get_pending_requests'']
       = (Inr (JStr ''live''),
          [''get_queue_size'', ''get_pending_requests'', ''get_stream_status''])"
    by (simp_all add: status_fixture_defs)
  have quiet: "\<forall>v. snd (get_queue_size silent_sources v) = v"
    "\<forall>v. snd (get_pending_requests silent_sources v) = v"
    "\<forall>v. snd (get_stream_status silent_sources v) = v"
    by (simp_all add: status_fixture_defs)
  have one: "status_round queue_down_sources []
     = ((Error_line AttributeError, 60), [''get_queue_size'', ''get_pending_requests''])"
    using status_round_in_order [where src = queue_down_sources and w = "[]"] q
    by blast
  have two: "status_round studio_sources []
       = ((Status_line (JNum 3) (JNum 1) (JStr ''live''), 60),
          [''get_queue_size'', ''get_pending_requests'', ''get_stream_status''])"
    using status_round_in_order [where src = studio_sources and w = "[]"] s by blast
  have three: "length (fst (status_monitoring_loop obs_flaky_sources [True, True, True] [])) = 3"
    using status_round_in_order [where src = obs_flaky_sources and w = "[]"
        and rounds = "[True, True, True]"]
    by simp
  have four: "snd (status_monitoring_loop silent_sources [True, True, True] [''before''])
                = [''before'']"
    using status_round_in_order [where src = silent_sources and w = "[''before'']"
        and rounds = "[True, True, True]"] quiet
    by blast
  have log: "fst (status_monitoring_loop obs_flaky_sources [True, True, True] [])
       = [(Status_line (JNum 3) (JNum 1) (JStr ''live''), 60), (Error_line ClientError, 60),
          (Status_line (JNum 3) (JNum 1) (JStr ''live''), 60)]"
    by (simp add: status_fixture_defs)
  from one two three four log show ?thesis by simp
qed

section \<open>The waiting loops end in time\<close>

text \<open>
  The recursive equations of the two loops are applied by hand, one round at a time.
\<close>

declare wait_for_generation_loop.simps [simp del]
declare wait_for_completion_loop.simps [simp del]

text \<open>
  With polls that take at most \<open>L\<close> milliseconds, a loop that is entered within the bound
  returns within the bound: the maximal wait, one poll and one sleep. The sleep of the
  image loop is 5 seconds after an exception and 2 seconds otherwise.
\<close>

lemma wait_for_generation_loop_bound:
  assumes "\<forall>k. poll_latency (backend k) \<le> L"
    and "int now - int start_time < max_wait * 1000 + int L + 10000"
  shows "int (snd (wait_for_generation_loop backend max_wait start_time now k)) - int start_time
           < max_wait * 1000 + int L + 10000"
  using assms
proof (induction backend max_wait start_time now k rule: wait_for_generation_loop.induct)
  case (1 backend max_wait start_time now k)
  have l: "poll_latency (backend k) \<le> L" using "1.prems"(1) by simp
  show ?case
  proof (cases "int now - int start_time < max_wait * 1000")
    case False
    then show ?thesis
      using "1.prems"(2) by (subst wait_for_generation_loop.simps) simp
  next
    case True
    have next_ok: "int (now + poll_latency (backend k) + 10000) - int start_time
                     < max_wait * 1000 + int L + 10000"
      using True l by simp
    show ?thesis
      using True l "1.IH" "1.prems"(1) next_ok
      by (subst wait_for_generation_loop.simps)
         (auto simp: Let_def split: sum.splits option.splits json.splits)
  qed
qed

lemma wait_for_completion_loop_bound:
  assumes "\<forall>k. image_latency (backend k) \<le> L"
    and "int now - int start_time < max_wait * 1000 + int L + 5000"
  shows "int (snd (wait_for_completion_loop backend prompt_id max_wait start_time now k))
           - int start_time < max_wait * 1000 + int L + 5000"
  using assms
proof (induction backend prompt_id max_wait start_time now k rule: wait_for_completion_loop.induct)
  case (1 backend prompt_id max_wait start_time now k)
  have l: "image_latency (backend k) \<le> L" using "1.prems"(1) by simp
  show ?case
  proof (cases "int now - int start_time < max_wait * 1000")
    case False
    then show ?thesis
      using "1.prems"(2) by (subst wait_for_completion_loop.simps) simp
  next
    case True
    have next_ok: "int (now + image_latency (backend k) + 2000) - int start_time
                     < max_wait * 1000 + int L + 5000"
       "int (now + image_latency (backend k) + 5000) - int start_time
                     < max_wait * 1000 + int L + 5000"
      using True l by simp_all
    show ?thesis
      using True l "1.IH" "1.prems"(1) next_ok
      by (subst wait_for_completion_loop.simps)
         (auto simp: Let_def split: sum.splits option.splits)
  qed
qed

lemma wait_for_completion_loop_quiet_bound:
  assumes "\<forall>k. image_latency (backend k) \<le> L"
    and "\<forall>k e. check_once (backend k) prompt_id \<noteq> Inl e"
    and "int now - int start_time < max_wait * 1000 + int L + 2000"
  shows "int (snd (wait_for_completion_loop backend prompt_id max_wait start_time now k))
           - int start_time < max_wait * 1000 + int L + 2000"
  using assms
proof (induction backend prompt_id max_wait start_time now k rule: wait_for_completion_loop.induct)
  case (1 backend prompt_id max_wait start_time now k)
  have l: "image_latency (backend k) \<le> L" using "1.prems"(1) by simp
  show ?case
  proof (cases "int now - int start_time < max_wait * 1000")
    case False
    then show ?thesis
      using "1.prems"(3) by (subst wait_for_completion_loop.simps) simp
  next
    case True
    have next_ok: "int (now + image_latency (backend k) + 2000) - int start_time
                     < max_wait * 1000 + int L + 2000"
      using True l by simp
    show ?thesis
      using True l "1.IH" "1.prems"(1,2) next_ok
      by (subst wait_for_completion_loop.simps)
         (auto simp: Let_def split: sum.splits option.splits)
  qed
qed


lemma always_pending_times_out:
  "fst (wait_for_generation_loop always_pending max_wait start_time now k) = None \<and>
   max_wait * 1000 \<le> int (snd (wait_for_generation_loop always_pending max_wait start_time now k))
                         - int start_time"
proof (induction "always_pending" max_wait start_time now k rule: wait_for_generation_loop.induct)
  case (1 max_wait start_time now k)
  show ?case
    using "1.hyps"
    by (subst (1 2) wait_for_generation_loop.simps)
       (simp add: always_pending_def job_status_def response_of_def dict_get_def Let_def)
qed

lemma check_once_queued: "check_once (image_queued prompt_id) prompt_id = Inr None"
  by (simp add: check_once_def image_queued_def response_of_def py_get_def dict_get_def
      py_iter_def py_item_def)

lemma check_once_done: "check_once (image_done prompt_id) prompt_id = Inr (Some ''PNG'')"
  by (simp add: check_once_def check_history_def image_done_def response_of_def py_get_def
      dict_get_def py_iter_def py_item_def py_in_def py_key_def)

lemma image_fixture_latency:
  "image_latency (image_queued prompt_id) = 0" "image_latency (image_done prompt_id) = 0"
  by (simp_all add: image_queued_def image_done_def)

lemma image_always_pending_times_out:
  "fst (wait_for_completion_loop (image_always_pending prompt_id) prompt_id max_wait start_time now k)
     = None \<and>
   max_wait * 1000
     \<le> int (snd (wait_for_completion_loop (image_always_pending prompt_id) prompt_id
                    max_wait start_time now k)) - int start_time"
proof (induction "image_always_pending prompt_id" prompt_id max_wait start_time now k
    rule: wait_for_completion_loop.induct)
  case (1 prompt_id max_wait start_time now k)
  show ?case
    using "1.hyps"
    by (subst (1 2) wait_for_completion_loop.simps)
       (simp add: image_always_pending_def check_once_queued Let_def)
qed

text \<open>
  Claim C7 (terminal outcome in time). Both waiting loops are total functions: they
  return for every backend. Against a simulated backend, whose polls take no time (and,
  for the image loop, raise no exception), \<open>_wait_for_generation\<close> returns less than
  \<open>max_wait\<close> plus one poll interval of 10 seconds after its start, and
  \<open>_wait_for_completion\<close> less than \<open>max_wait\<close> plus one poll interval of 2 seconds
  after its start, whatever the backend answers. A backend that stays pending makes both
  return \<open>None\<close>, not before \<open>max_wait\<close> has passed.
\<close>

theorem pollers_end_in_time:
  assumes "0 \<le> max_wait"
    and "\<forall>k. poll_latency (backend k) = 0"
    and "\<forall>k. image_latency (image_backend k) = 0"
    and "\<forall>k e. check_once (image_backend k) prompt_id \<noteq> Inl e"
  shows "int (snd (wait_for_generation backend max_wait start_time)) - int start_time
           < (max_wait + 10) * 1000
         \<and> int (snd (wait_for_completion image_backend prompt_id max_wait start_time))
             - int start_time < (max_wait + 2) * 1000
         \<and> fst (wait_for_generation always_pending max_wait start_time) = None
         \<and> max_wait * 1000
             \<le> int (snd (wait_for_generation always_pending max_wait start_time)) - int start_time
         \<and> fst (wait_for_completion (image_always_pending prompt_id) prompt_id max_wait start_time)
             = None
         \<and> max_wait * 1000
             \<le> int (snd (wait_for_completion (image_always_pending prompt_id) prompt_id
                            max_wait start_time)) - int start_time"
proof -
  have v: "int (snd (wait_for_generation backend max_wait start_time)) - int start_time
             < max_wait * 1000 + int 0 + 10000"
    unfolding wait_for_generation_def
    using assms(1,2) by (intro wait_for_generation_loop_bound) simp_all
  have i: "int (snd (wait_for_completion image_backend prompt_id max_wait start_time))
             - int start_time < max_wait * 1000 + int 0 + 2000"
    unfolding wait_for_completion_def
    using assms(1,3,4) by (intro wait_for_completion_loop_quiet_bound) simp_all
  from v i show ?thesis
    using always_pending_times_out [of max_wait start_time start_time 0]
      image_always_pending_times_out [of prompt_id max_wait start_time start_time 0]
    by (simp add: wait_for_generation_def wait_for_completion_def algebra_simps)
qed

lemma completes_at_run:
  "wait_for_generation (completes_at 3) 300 5
     = (Some (JObj [(''status'', JStr ''completed'')]), 30005)"
  by (simp add: wait_for_generation_def wait_for_generation_loop.simps completes_at_def
      job_status_def response_of_def dict_get_def Let_def)

lemma image_completes_at_run:
  "wait_for_completion (image_completes_at ''p1'' 4) ''p1'' 300 5 = (Some ''PNG'', 8005)"
  by (simp add: wait_for_completion_def wait_for_completion_loop.simps image_completes_at_def
      check_once_queued check_once_done image_fixture_latency Let_def)

theorem pollers_end_in_time_witness:
  "(0::int) \<le> 300
   \<and> (\<forall>k. poll_latency (completes_at 3 k) = 0)
   \<and> (\<forall>k. image_latency (image_completes_at ''p1'' 4 k) = 0)
   \<and> (\<forall>k e. check_once (image_completes_at ''p1'' 4 k) ''p1'' \<noteq> Inl e)
   \<and> int (snd (wait_for_generation (completes_at 3) 300 5)) - 5 < 310000
   \<and> int (snd (wait_for_completion (image_completes_at ''p1'' 4) ''p1'' 300 5)) - 5 < 302000
   \<and> fst (wait_for_generation always_pending 300 5) = None
   \<and> fst (wait_for_completion (image_always_pending ''p1'') ''p1'' 300 5) = None"
proof -
  have a: "\<forall>k. poll_latency (completes_at 3 k) = 0"
    by (simp add: completes_at_def job_status_def)
  have b: "\<forall>k. image_latency (image_completes_at ''p1'' 4 k) = 0"
    by (simp add: image_completes_at_def image_fixture_latency)
  have c: "\<forall>k e. check_once (image_completes_at ''p1'' 4 k) ''p1'' \<noteq> Inl e"
    by (simp add: image_completes_at_def check_once_queued check_once_done)
  from pollers_end_in_time [of 300 "completes_at 3" "image_completes_at ''p1'' 4" "''p1''" 5] a b c
  show ?thesis by simp
qed

text \<open>
  The bound of the image loop needs polls that do not raise: after an exception the loop
  sleeps 5 seconds. With a maximal wait of 3 seconds, a first poll that finds the job
  queued and a second one that cannot reach the backend, the loop returns \<open>None\<close> 7
  seconds after its start.
\<close>

lemma check_once_unreachable: "check_once image_unreachable prompt_id = Inl ClientError"
  by (simp add: check_once_def image_unreachable_def)

lemma image_backoff_overrun:
  "wait_for_completion (image_drops_at ''p1'' 1) ''p1'' 3 0 = (None, 7000)"
proof -
  have l: "image_latency image_unreachable = 0"
    by (simp add: image_unreachable_def)
  show ?thesis
    by (simp add: wait_for_completion_def wait_for_completion_loop.simps image_drops_at_def
        check_once_queued check_once_unreachable image_fixture_latency l Let_def)
qed


end
